theory Spec2Isabelle
  imports Complex_Main
begin

section \<open>Python values shared by both pipelines\<close>

text \<open>
  The repository holds two linear pipelines: \<^verbatim>\<open>SpaceXDataExtractor\<close>
  (\<^verbatim>\<open>falcon9_data_collection.py\<close>) and \<^verbatim>\<open>Falcon9Scraper\<close>
  (\<^verbatim>\<open>falcon9_data_wrangling.py\<close>). Their functions are embedded below as HOL
  functions. A Python exception is a value \<open>Inl e\<close> of a sum type, a normal return is
  \<open>Inr v\<close>. A \<^verbatim>\<open>str\<close> is a \<open>string\<close> holding its UTF-8 bytes: equality and
  concatenation of texts agree with those of their encodings, and \<^verbatim>\<open>len\<close> counts
  code points, that is the bytes that are not continuation bytes (\<open>py_len\<close>).
\<close>

datatype py_error = KeyError | IndexError | TypeError | ValueError | AttributeError | OSError

datatype pyval = PNone | PBool bool | PInt int | PFloat real | PStr string

type_synonym json_object = "(string \<times> pyval) list"

text \<open>\<^verbatim>\<open>d.get(key)\<close>: the value stored under the key, \<^verbatim>\<open>None\<close> without one.\<close>

definition dict_get :: "json_object \<Rightarrow> string \<Rightarrow> pyval" where
  "dict_get d k = (case map_of d k of None \<Rightarrow> PNone | Some v \<Rightarrow> v)"

text \<open>\<^verbatim>\<open>xs[0]\<close> raises \<^verbatim>\<open>IndexError\<close> on the empty list.\<close>

fun first :: "'a list \<Rightarrow> py_error + 'a" where
  "first (x # xs) = Inr x"
| "first [] = Inl IndexError"

definition py_len :: "string \<Rightarrow> nat" where
  "py_len s = length (filter (\<lambda>c. \<not> (128 \<le> (of_char c :: nat) \<and> (of_char c :: nat) < 192)) s)"

text \<open>\<^verbatim>\<open>sep.join(xs)\<close>.\<close>

fun join :: "string \<Rightarrow> string list \<Rightarrow> string" where
  "join sep [] = []"
| "join sep [x] = x"
| "join sep (x # y # ys) = x @ sep @ join sep (y # ys)"

text \<open>
  A log record as Python's \<^verbatim>\<open>logging\<close> keeps it: the level, the format string and
  its arguments. Logging is modelled at the exporters, whose contract speaks of it.
\<close>

datatype level = INFO | ERROR

datatype log_arg = ArgStr string | ArgExc py_error

type_synonym log_record = "level \<times> string \<times> log_arg list"

section \<open>The API pipeline: \<^verbatim>\<open>SpaceXDataExtractor\<close>\<close>

subsection \<open>Data\<close>

text \<open>
  One element of a launch's \<^verbatim>\<open>cores\<close> list. A key the object lacks and a key
  bound to \<^verbatim>\<open>null\<close> both read as \<^verbatim>\<open>None\<close> through \<^verbatim>\<open>get\<close>.
\<close>

record core_usage =
  core :: "string option"
  flight :: "int option"
  gridfins :: "bool option"
  reused :: "bool option"
  legs :: "bool option"
  landpad :: "string option"
  landing_success :: "bool option"
  landing_type :: "string option"

text \<open>
  A row of the launch table with the six columns that \<^verbatim>\<open>fetch_launch_data\<close> keeps and
  the \<^verbatim>\<open>date\<close> column it adds. The columns \<^verbatim>\<open>payloads\<close> and \<^verbatim>\<open>cores\<close> hold
  lists in the listing and their sole element after the unwrapping; the \<^verbatim>\<open>date\<close>
  column does not exist (\<open>unit\<close>) until it is derived.
\<close>

record ('p, 'c, 'd) launch =
  rocket :: "string option"
  payloads :: 'p
  launchpad :: "string option"
  cores :: 'c
  flight_number :: int
  date_utc :: string
  date :: 'd

record py_date =
  year :: nat
  month :: nat
  day :: nat

type_synonym launch_entry = "(string list, core_usage list, unit) launch"

type_synonym raw_launch = "(string, core_usage, py_date) launch"

text \<open>A data frame is the list of its rows in order, each with its index label.\<close>

type_synonym 'r frame = "(nat \<times> 'r) list"

text \<open>The row of the final table, its columns in the order of \<^verbatim>\<open>_create_dataframe\<close>.\<close>

record launch_row =
  FlightNumber :: int
  Date :: string
  BoosterVersion :: pyval
  PayloadMass :: pyval
  Orbit :: pyval
  LaunchSite :: pyval
  Outcome :: string
  Flights :: "int option"
  GridFins :: "bool option"
  Reused :: "bool option"
  Legs :: "bool option"
  LandingPad :: "string option"
  Block :: pyval
  ReusedCount :: pyval
  Serial :: pyval
  Longitude :: pyval
  Latitude :: pyval

text \<open>
  The attributes of a \<^verbatim>\<open>SpaceXDataExtractor\<close>. The accumulator \<^verbatim>\<open>self.legs\<close> is
  \<open>legs_list\<close> here, since \<open>legs\<close> is the key of \<open>core_usage\<close>.
\<close>

record extractor =
  limit_date :: py_date
  booster_versions :: "pyval list"
  payload_masses :: "pyval list"
  orbits :: "pyval list"
  launch_sites :: "pyval list"
  outcomes :: "string list"
  flights :: "int option list"
  grid_fins :: "bool option list"
  reused_status :: "bool option list"
  legs_list :: "bool option list"
  landing_pads :: "string option list"
  block_numbers :: "pyval list"
  reuse_counts :: "pyval list"
  core_serials :: "pyval list"
  longitudes :: "pyval list"
  latitudes :: "pyval list"
  raw_data :: "raw_launch frame option"
  processed_data :: "launch_row frame option"

text \<open>\<^verbatim>\<open>__init__\<close>: the cutoff date, empty accumulators, no tables.\<close>

definition SpaceXDataExtractor :: "py_date \<Rightarrow> extractor" where
  "SpaceXDataExtractor d =
     \<lparr>limit_date = d, booster_versions = [], payload_masses = [], orbits = [],
      launch_sites = [], outcomes = [], flights = [], grid_fins = [], reused_status = [],
      legs_list = [], landing_pads = [], block_numbers = [], reuse_counts = [],
      core_serials = [], longitudes = [], latitudes = [], raw_data = None,
      processed_data = None\<rparr>"

definition default_limit_date :: py_date where
  "default_limit_date = \<lparr>year = 2020, month = 11, day = 13\<rparr>"

text \<open>
  The network, as \<^verbatim>\<open>fetch_json\<close> sees it: \<open>None\<close> where the request raises a
  \<^verbatim>\<open>RequestException\<close> (which \<^verbatim>\<open>fetch_json\<close> catches, returning \<^verbatim>\<open>None\<close>), the
  decoded JSON otherwise. The listing is an array of launches, every other resource
  an object.
\<close>

record network =
  listing :: "launch_entry list option"
  resource :: "string \<Rightarrow> json_object option"

definition LAUNCHPADS_URL :: string where
  "LAUNCHPADS_URL = ''https://api.spacexdata.com/v4/launchpads/''"

definition PAYLOADS_URL :: string where
  "PAYLOADS_URL = ''https://api.spacexdata.com/v4/payloads/''"

definition ROCKETS_URL :: string where
  "ROCKETS_URL = ''https://api.spacexdata.com/v4/rockets/''"

definition CORES_URL :: string where
  "CORES_URL = ''https://api.spacexdata.com/v4/cores/''"

subsection \<open>Dates\<close>

text \<open>Comparison of two \<^verbatim>\<open>datetime.date\<close> values: by year, then month, then day.\<close>

definition date_le :: "py_date \<Rightarrow> py_date \<Rightarrow> bool" where
  "date_le a b =
     (year a < year b \<or> (year a = year b \<and> (month a < month b \<or>
        (month a = month b \<and> day a \<le> day b))))"

definition leap_year :: "nat \<Rightarrow> bool" where
  "leap_year y = (y mod 4 = 0 \<and> (y mod 100 \<noteq> 0 \<or> y mod 400 = 0))"

definition days_in_month :: "nat \<Rightarrow> nat \<Rightarrow> nat" where
  "days_in_month y m =
     (if m = 2 then (if leap_year y then 29 else 28)
      else if m = 4 \<or> m = 6 \<or> m = 9 \<or> m = 11 then 30 else 31)"

definition digit :: "char \<Rightarrow> nat option" where
  "digit c = (let n = (of_char c :: nat) in if 48 \<le> n \<and> n \<le> 57 then Some (n - 48) else None)"

fun number :: "nat \<Rightarrow> string \<Rightarrow> nat option" where
  "number acc [] = Some acc"
| "number acc (c # cs) = (case digit c of None \<Rightarrow> None | Some n \<Rightarrow> number (10 * acc + n) cs)"

text \<open>
  \<^verbatim>\<open>pd.to_datetime(s).date()\<close> for a timestamp in the format of the API's
  \<^verbatim>\<open>date_utc\<close>, \<^verbatim>\<open>YYYY-MM-DDTHH:MM:SS.mmmZ\<close>: the calendar date in UTC. Every other
  string is a \<^verbatim>\<open>ValueError\<close> here; pandas reads further formats, which are outside
  this model. The years are those that pandas' nanosecond timestamps cover in full.
\<close>

fun to_date :: "string \<Rightarrow> py_error + py_date" where
  "to_date [y1, y2, y3, y4, c1, m1, m2, c2, d1, d2, t, h1, h2, c3, n1, n2, c4, s1, s2, c5, f1, f2, f3, z] =
     (if c1 = CHR ''-'' \<and> c2 = CHR ''-'' \<and> t = CHR ''T'' \<and> c3 = CHR '':'' \<and> c4 = CHR '':''
         \<and> c5 = CHR ''.'' \<and> z = CHR ''Z''
      then
        (case (number 0 [y1, y2, y3, y4], number 0 [m1, m2], number 0 [d1, d2],
               number 0 [h1, h2], number 0 [n1, n2], number 0 [s1, s2], number 0 [f1, f2, f3]) of
           (Some y, Some m, Some d, Some h, Some n, Some s, Some f) \<Rightarrow>
             if 1678 \<le> y \<and> y \<le> 2261 \<and> 1 \<le> m \<and> m \<le> 12 \<and> 1 \<le> d \<and> d \<le> days_in_month y m
                \<and> h < 24 \<and> n < 60 \<and> s < 60
             then Inr \<lparr>year = y, month = m, day = d\<rparr>
             else Inl ValueError
         | _ \<Rightarrow> Inl ValueError)
      else Inl ValueError)"
| "to_date _ = Inl ValueError"

subsection \<open>\<^verbatim>\<open>fetch_launch_data\<close>\<close>

text \<open>
  \<^verbatim>\<open>Series.map(f)\<close> on one column of every row, in row order; the first exception
  ends the pass. The index labels stay.
\<close>

fun map_rows :: "('a \<Rightarrow> py_error + 'b) \<Rightarrow> 'a frame \<Rightarrow> py_error + 'b frame" where
  "map_rows f [] = Inr []"
| "map_rows f ((i, r) # rs) =
     (case f r of
        Inl e \<Rightarrow> Inl e
      | Inr r' \<Rightarrow> (case map_rows f rs of Inl e \<Rightarrow> Inl e | Inr rs' \<Rightarrow> Inr ((i, r') # rs')))"

text \<open>\<^verbatim>\<open>df['cores'] = df['cores'].map(lambda x: x[0])\<close>, on one row.\<close>

definition unwrap_cores :: "('p, 'c list, 'd) launch \<Rightarrow> py_error + ('p, 'c, 'd) launch" where
  "unwrap_cores r =
     (case first (cores r) of
        Inl e \<Rightarrow> Inl e
      | Inr x \<Rightarrow> Inr \<lparr>rocket = rocket r, payloads = payloads r, launchpad = launchpad r,
                     cores = x, flight_number = flight_number r, date_utc = date_utc r,
                     date = date r\<rparr>)"

text \<open>\<^verbatim>\<open>df['payloads'] = df['payloads'].map(lambda x: x[0])\<close>, on one row.\<close>

definition unwrap_payloads :: "('p list, 'c, 'd) launch \<Rightarrow> py_error + ('p, 'c, 'd) launch" where
  "unwrap_payloads r =
     (case first (payloads r) of
        Inl e \<Rightarrow> Inl e
      | Inr x \<Rightarrow> Inr \<lparr>rocket = rocket r, payloads = x, launchpad = launchpad r,
                     cores = cores r, flight_number = flight_number r, date_utc = date_utc r,
                     date = date r\<rparr>)"

text \<open>\<^verbatim>\<open>df['date'] = pd.to_datetime(df['date_utc']).dt.date\<close>, on one row.\<close>

definition derive_date :: "('p, 'c, unit) launch \<Rightarrow> py_error + ('p, 'c, py_date) launch" where
  "derive_date r =
     (case to_date (date_utc r) of
        Inl e \<Rightarrow> Inl e
      | Inr d \<Rightarrow> Inr \<lparr>rocket = rocket r, payloads = payloads r, launchpad = launchpad r,
                     cores = cores r, flight_number = flight_number r, date_utc = date_utc r,
                     date = d\<rparr>)"

text \<open>\<^verbatim>\<open>df.reset_index(drop=True)\<close>: the rows in order, labelled from zero.\<close>

definition reset_index :: "'r frame \<Rightarrow> 'r frame" where
  "reset_index df = zip [0..<length df] (map snd df)"

text \<open>
  \<^verbatim>\<open>fetch_launch_data\<close>, given what \<^verbatim>\<open>fetch_json\<close> returned for the listing.
  \<^verbatim>\<open>pd.json_normalize\<close> of the empty array is a frame without columns, and
  selecting the six columns from it raises \<^verbatim>\<open>KeyError\<close>; of a non-empty array it is
  a frame with the rows labelled from zero.
\<close>

definition fetch_launch_data :: "launch_entry list option \<Rightarrow> extractor \<Rightarrow> py_error + extractor" where
  "fetch_launch_data response s =
     (case response of
        None \<Rightarrow> Inr s
      | Some entries \<Rightarrow>
          if entries = [] then Inl KeyError
          else
            let df = zip [0..<length entries] entries;
                df = filter (\<lambda>(i, r). length (cores r) = 1) df;
                df = filter (\<lambda>(i, r). length (payloads r) = 1) df
            in (case map_rows unwrap_cores df of
                  Inl e \<Rightarrow> Inl e
                | Inr df \<Rightarrow>
                    (case map_rows unwrap_payloads df of
                       Inl e \<Rightarrow> Inl e
                     | Inr df \<Rightarrow>
                         (case map_rows derive_date df of
                            Inl e \<Rightarrow> Inl e
                          | Inr df \<Rightarrow>
                              (let df = filter (\<lambda>(i, r). date_le (date r) (limit_date s)) df
                               in Inr (s\<lparr>raw_data := Some (reset_index df)\<rparr>))))))"

subsection \<open>The enrichment loops\<close>

text \<open>
  Each loop runs over one column of \<^verbatim>\<open>raw_data\<close> and appends to its accumulators
  once per row. An id is truthy when it is a non-empty string, a response when it is
  a non-empty object; \<^verbatim>\<open>str(id)\<close> of a string is the string.
\<close>

definition get_launch_site_step :: "network \<Rightarrow> extractor \<Rightarrow> string option \<Rightarrow> extractor" where
  "get_launch_site_step net s launchpad_id =
     (case launchpad_id of
        Some i \<Rightarrow>
          if i \<noteq> [] then
            (case resource net (LAUNCHPADS_URL @ i) of
               Some response \<Rightarrow>
                 if response \<noteq> [] then
                   s\<lparr>longitudes := longitudes s @ [dict_get response ''longitude''],
                     latitudes := latitudes s @ [dict_get response ''latitude''],
                     launch_sites := launch_sites s @ [dict_get response ''name'']\<rparr>
                 else
                   s\<lparr>longitudes := longitudes s @ [PNone],
                     latitudes := latitudes s @ [PNone],
                     launch_sites := launch_sites s @ [PNone]\<rparr>
             | None \<Rightarrow>
                 s\<lparr>longitudes := longitudes s @ [PNone],
                   latitudes := latitudes s @ [PNone],
                   launch_sites := launch_sites s @ [PNone]\<rparr>)
          else
            s\<lparr>longitudes := longitudes s @ [PNone],
              latitudes := latitudes s @ [PNone],
              launch_sites := launch_sites s @ [PNone]\<rparr>
      | None \<Rightarrow>
          s\<lparr>longitudes := longitudes s @ [PNone],
            latitudes := latitudes s @ [PNone],
            launch_sites := launch_sites s @ [PNone]\<rparr>)"

definition get_launch_site_data :: "network \<Rightarrow> extractor \<Rightarrow> extractor" where
  "get_launch_site_data net s =
     (case raw_data s of
        None \<Rightarrow> s
      | Some df \<Rightarrow> foldl (get_launch_site_step net) s (map (\<lambda>(i, r). launchpad r) df))"

definition get_payload_step :: "network \<Rightarrow> extractor \<Rightarrow> string \<Rightarrow> extractor" where
  "get_payload_step net s payload_id =
     (if payload_id \<noteq> [] then
        (case resource net (PAYLOADS_URL @ payload_id) of
           Some response \<Rightarrow>
             if response \<noteq> [] then
               s\<lparr>payload_masses := payload_masses s @ [dict_get response ''mass_kg''],
                 orbits := orbits s @ [dict_get response ''orbit'']\<rparr>
             else
               s\<lparr>payload_masses := payload_masses s @ [PNone],
                 orbits := orbits s @ [PNone]\<rparr>
         | None \<Rightarrow>
             s\<lparr>payload_masses := payload_masses s @ [PNone],
               orbits := orbits s @ [PNone]\<rparr>)
      else
        s\<lparr>payload_masses := payload_masses s @ [PNone],
          orbits := orbits s @ [PNone]\<rparr>)"

definition get_payload_data :: "network \<Rightarrow> extractor \<Rightarrow> extractor" where
  "get_payload_data net s =
     (case raw_data s of
        None \<Rightarrow> s
      | Some df \<Rightarrow> foldl (get_payload_step net) s (map (\<lambda>(i, r). payloads r) df))"

definition get_booster_version_step :: "network \<Rightarrow> extractor \<Rightarrow> string option \<Rightarrow> extractor" where
  "get_booster_version_step net s rocket_id =
     (case rocket_id of
        Some i \<Rightarrow>
          if i \<noteq> [] then
            (case resource net (ROCKETS_URL @ i) of
               Some response \<Rightarrow>
                 if response \<noteq> [] then
                   s\<lparr>booster_versions := booster_versions s @ [dict_get response ''name'']\<rparr>
                 else s\<lparr>booster_versions := booster_versions s @ [PNone]\<rparr>
             | None \<Rightarrow> s\<lparr>booster_versions := booster_versions s @ [PNone]\<rparr>)
          else s\<lparr>booster_versions := booster_versions s @ [PNone]\<rparr>
      | None \<Rightarrow> s\<lparr>booster_versions := booster_versions s @ [PNone]\<rparr>)"

definition get_booster_version_data :: "network \<Rightarrow> extractor \<Rightarrow> extractor" where
  "get_booster_version_data net s =
     (case raw_data s of
        None \<Rightarrow> s
      | Some df \<Rightarrow> foldl (get_booster_version_step net) s (map (\<lambda>(i, r). rocket r) df))"

text \<open>\<^verbatim>\<open>str(x)\<close> of an optional flag and of an optional string.\<close>

definition str_bool :: "bool option \<Rightarrow> string" where
  "str_bool x = (case x of None \<Rightarrow> ''None'' | Some b \<Rightarrow> if b then ''True'' else ''False'')"

definition str_str :: "string option \<Rightarrow> string" where
  "str_str x = (case x of None \<Rightarrow> ''None'' | Some t \<Rightarrow> t)"

text \<open>The first half of the loop body of \<^verbatim>\<open>get_core_data\<close>: the core look-up.\<close>

definition get_core_lookup :: "network \<Rightarrow> extractor \<Rightarrow> string option \<Rightarrow> extractor" where
  "get_core_lookup net s core_id =
     (case core_id of
        Some i \<Rightarrow>
          if i \<noteq> [] then
            (case resource net (CORES_URL @ i) of
               Some response \<Rightarrow>
                 if response \<noteq> [] then
                   s\<lparr>block_numbers := block_numbers s @ [dict_get response ''block''],
                     reuse_counts := reuse_counts s @ [dict_get response ''reuse_count''],
                     core_serials := core_serials s @ [dict_get response ''serial'']\<rparr>
                 else
                   s\<lparr>block_numbers := block_numbers s @ [PNone],
                     reuse_counts := reuse_counts s @ [PNone],
                     core_serials := core_serials s @ [PNone]\<rparr>
             | None \<Rightarrow>
                 s\<lparr>block_numbers := block_numbers s @ [PNone],
                   reuse_counts := reuse_counts s @ [PNone],
                   core_serials := core_serials s @ [PNone]\<rparr>)
          else
            s\<lparr>block_numbers := block_numbers s @ [PNone],
              reuse_counts := reuse_counts s @ [PNone],
              core_serials := core_serials s @ [PNone]\<rparr>
      | None \<Rightarrow>
          s\<lparr>block_numbers := block_numbers s @ [PNone],
            reuse_counts := reuse_counts s @ [PNone],
            core_serials := core_serials s @ [PNone]\<rparr>)"

definition get_core_step :: "network \<Rightarrow> extractor \<Rightarrow> core_usage \<Rightarrow> extractor" where
  "get_core_step net s core_info =
     (let core_id = core core_info;
          s = get_core_lookup net s core_id;
          landing_success = landing_success core_info;
          landing_type = landing_type core_info
      in s\<lparr>outcomes := outcomes s @ [str_bool landing_success @ '' '' @ str_str landing_type],
           flights := flights s @ [flight core_info],
           grid_fins := grid_fins s @ [gridfins core_info],
           reused_status := reused_status s @ [reused core_info],
           legs_list := legs_list s @ [legs core_info],
           landing_pads := landing_pads s @ [landpad core_info]\<rparr>)"

definition get_core_data :: "network \<Rightarrow> extractor \<Rightarrow> extractor" where
  "get_core_data net s =
     (case raw_data s of
        None \<Rightarrow> s
      | Some df \<Rightarrow> foldl (get_core_step net) s (map (\<lambda>(i, r). cores r) df))"

subsection \<open>Final assembly, the whole run, export\<close>

text \<open>
  \<^verbatim>\<open>pd.DataFrame(launch_data)\<close>: the columns are the two lists read from
  \<^verbatim>\<open>raw_data\<close> and the fifteen accumulators. Columns of different lengths are a
  \<^verbatim>\<open>ValueError\<close>; otherwise row \<open>i\<close> holds the \<open>i\<close>-th element of every column and is
  labelled \<open>i\<close>.
\<close>

definition launch_data_frame :: "extractor \<Rightarrow> raw_launch frame \<Rightarrow> py_error + launch_row frame" where
  "launch_data_frame s raw =
     (let n = length raw in
      if length (booster_versions s) = n \<and> length (payload_masses s) = n
         \<and> length (orbits s) = n \<and> length (launch_sites s) = n
         \<and> length (outcomes s) = n \<and> length (flights s) = n
         \<and> length (grid_fins s) = n \<and> length (reused_status s) = n
         \<and> length (legs_list s) = n \<and> length (landing_pads s) = n
         \<and> length (block_numbers s) = n \<and> length (reuse_counts s) = n
         \<and> length (core_serials s) = n \<and> length (longitudes s) = n
         \<and> length (latitudes s) = n
      then
        Inr (map (\<lambda>i. (i,
               \<lparr>FlightNumber = flight_number (snd (raw ! i)),
                Date = date_utc (snd (raw ! i)),
                BoosterVersion = booster_versions s ! i,
                PayloadMass = payload_masses s ! i,
                Orbit = orbits s ! i,
                LaunchSite = launch_sites s ! i,
                Outcome = outcomes s ! i,
                Flights = flights s ! i,
                GridFins = grid_fins s ! i,
                Reused = reused_status s ! i,
                Legs = legs_list s ! i,
                LandingPad = landing_pads s ! i,
                Block = block_numbers s ! i,
                ReusedCount = reuse_counts s ! i,
                Serial = core_serials s ! i,
                Longitude = longitudes s ! i,
                Latitude = latitudes s ! i\<rparr>)) [0..<n])
      else Inl ValueError)"

text \<open>
  \<^verbatim>\<open>_create_dataframe\<close>. Subscripting \<^verbatim>\<open>self.raw_data\<close> when it is \<^verbatim>\<open>None\<close> is a
  \<^verbatim>\<open>TypeError\<close>. The boolean mask keeps the index labels of the rows it keeps.
\<close>

definition create_dataframe :: "extractor \<Rightarrow> py_error + extractor" where
  "create_dataframe s =
     (case raw_data s of
        None \<Rightarrow> Inl TypeError
      | Some raw \<Rightarrow>
          (case launch_data_frame s raw of
             Inl e \<Rightarrow> Inl e
           | Inr df \<Rightarrow>
               Inr (s\<lparr>processed_data :=
                        Some (filter (\<lambda>(i, r). BoosterVersion r \<noteq> PStr ''Falcon 1'') df)\<rparr>)))"

definition process_all_data :: "network \<Rightarrow> extractor \<Rightarrow> py_error + extractor" where
  "process_all_data net s =
     (case fetch_launch_data (listing net) s of
        Inl e \<Rightarrow> Inl e
      | Inr s \<Rightarrow>
          (case raw_data s of
             None \<Rightarrow> Inr s
           | Some raw \<Rightarrow>
               if raw = [] then Inr s
               else
                 let s = get_booster_version_data net s;
                     s = get_launch_site_data net s;
                     s = get_payload_data net s;
                     s = get_core_data net s
                 in create_dataframe s))"

text \<open>
  \<^verbatim>\<open>df.to_csv(filename, index=False)\<close> is the file system's answer to one write:
  \<open>None\<close> when the file was written, \<open>Some e\<close> when the call raises \<open>e\<close>. It is a
  parameter of both exporters.
\<close>

type_synonym 'df to_csv = "'df \<Rightarrow> string \<Rightarrow> py_error option"

text \<open>\<^verbatim>\<open>export_to_csv\<close>: no handler stands around the write.\<close>

definition export_to_csv :: "launch_row frame to_csv \<Rightarrow> extractor \<Rightarrow> string \<Rightarrow> py_error + log_record list" where
  "export_to_csv to_csv s filename =
     (case processed_data s of
        Some df \<Rightarrow>
          (case to_csv df filename of
             Some e \<Rightarrow> Inl e
           | None \<Rightarrow> Inr [(INFO, ''Data exported to %s'', [ArgStr filename])])
      | None \<Rightarrow> Inr [(ERROR, ''No processed data available. Run process_all_data() first.'', [])])"

section \<open>The wiki pipeline: \<^verbatim>\<open>Falcon9Scraper\<close>\<close>

subsection \<open>Dictionaries and tables\<close>

text \<open>
  A \<^verbatim>\<open>dict\<close> in insertion order: binding a key it holds replaces the value in
  place, a new key goes to the end. \<open>dict_of\<close> is \<^verbatim>\<open>dict(pairs)\<close>.
\<close>

fun dict_set :: "('k \<times> 'v) list \<Rightarrow> 'k \<Rightarrow> 'v \<Rightarrow> ('k \<times> 'v) list" where
  "dict_set [] k v = [(k, v)]"
| "dict_set ((k', v') # d) k v = (if k' = k then (k, v) # d else (k', v') # dict_set d k v)"

definition dict_of :: "('k \<times> 'v) list \<Rightarrow> ('k \<times> 'v) list" where
  "dict_of ps = foldl (\<lambda>d (k, v). dict_set d k v) [] ps"

text \<open>
  The scraper's table: the column labels in order, and the rows, each the list of its
  cells in column order. A cell is a text or null.
\<close>

record table =
  columns :: "string list"
  rows :: "string option list list"

text \<open>
  \<^verbatim>\<open>pd.DataFrame(records)\<close> of a list of dictionaries: the columns are the keys in
  the order of their first appearance, and a row has null where its dictionary lacks
  the key.
\<close>

definition DataFrame :: "(string \<times> string option) list list \<Rightarrow> table" where
  "DataFrame records =
     (let cols = rev (remdups (rev (concat (map (map fst) records))))
      in \<lparr>columns = cols,
          rows = map (\<lambda>d. map (\<lambda>c. case map_of d c of None \<Rightarrow> None | Some v \<Rightarrow> v) cols) records\<rparr>)"

subsection \<open>\<^verbatim>\<open>parse_launch_table\<close>\<close>

text \<open>
  The document as \<^verbatim>\<open>BeautifulSoup\<close> hands it over: the first table of class
  \<^verbatim>\<open>wikitable\<close> if there is one, as the list of its \<^verbatim>\<open>tr\<close> elements in document
  order, each the list of its \<^verbatim>\<open>td\<close> and \<^verbatim>\<open>th\<close> cells with the text that
  \<^verbatim>\<open>get_text(separator=" ", strip=True)\<close> extracts.
\<close>

datatype cell_tag = TH | TD

type_synonym cell = "cell_tag \<times> string"

type_synonym wikitable = "cell list list"

text \<open>The header names: the texts of the \<^verbatim>\<open>th\<close> cells of the first row.\<close>

definition header_names :: "cell list \<Rightarrow> string list" where
  "header_names tr = map snd (filter (\<lambda>c. fst c = TH) tr)"

text \<open>The loop over the rows after the first; the result is \<^verbatim>\<open>data_rows\<close>.\<close>

fun data_rows :: "string list \<Rightarrow> cell list list \<Rightarrow> (string \<times> string option) list list" where
  "data_rows headers [] = []"
| "data_rows headers (cells # trs) =
     (if cells = [] then data_rows headers trs
      else
        let row_text = map snd cells in
        if length row_text < length headers \<or> py_len (join '' '' row_text) > 200
        then data_rows headers trs
        else
          let row_text =
                (if length row_text < length headers
                 then map Some row_text @ replicate (length headers - length row_text) None
                 else map Some row_text)
          in dict_of (zip headers row_text) # data_rows headers trs)"

text \<open>
  \<^verbatim>\<open>parse_launch_table\<close>. Without a table the result is the empty frame; in a table
  without any row \<^verbatim>\<open>table.find("tr")\<close> is \<^verbatim>\<open>None\<close>, and calling \<^verbatim>\<open>find_all\<close>
  on it raises \<^verbatim>\<open>AttributeError\<close>.
\<close>

definition parse_launch_table :: "wikitable option \<Rightarrow> py_error + table" where
  "parse_launch_table doc =
     (case doc of
        None \<Rightarrow> Inr (DataFrame [])
      | Some trs \<Rightarrow>
          (case trs of
             [] \<Rightarrow> Inl AttributeError
           | tr # rest \<Rightarrow> Inr (DataFrame (data_rows (header_names tr) rest))))"

subsection \<open>\<^verbatim>\<open>clean_launch_data\<close> and \<^verbatim>\<open>export_data_to_csv\<close>\<close>

definition column_mapping :: "(string \<times> string) list" where
  "column_mapping =
     [(''Flight'', ''Flight No.''),
      (''Launch site'', ''Launch site''),
      (''Payload'', ''Payload''),
      (''Payload mass'', ''PayloadMass''),
      (''Orbit'', ''Orbit''),
      (''Customer'', ''Customer''),
      (''Launch outcome'', ''Launch outcome''),
      (''Booster'', ''Version Booster''),
      (''Booster landing'', ''Booster landing''),
      (''Date'', ''Date''),
      (''Time'', ''Time'')]"

text \<open>
  \<^verbatim>\<open>df.rename(columns=mapper)\<close>: every label that is a key of the mapper is replaced
  by its value, in place; the cells are not touched.
\<close>

definition rename :: "(string \<times> string) list \<Rightarrow> table \<Rightarrow> table" where
  "rename mapper df =
     df\<lparr>columns := map (\<lambda>c. case map_of mapper c of None \<Rightarrow> c | Some c' \<Rightarrow> c') (columns df)\<rparr>"

definition clean_launch_data :: "table \<Rightarrow> table" where
  "clean_launch_data df =
     rename (filter (\<lambda>(key, value). key \<in> set (columns df)) column_mapping) df"

text \<open>\<^verbatim>\<open>export_data_to_csv\<close>: the write stands in a \<^verbatim>\<open>try\<close> that catches \<^verbatim>\<open>Exception\<close>.\<close>

definition export_data_to_csv :: "table to_csv \<Rightarrow> table \<Rightarrow> string \<Rightarrow> py_error + log_record list" where
  "export_data_to_csv to_csv df filename =
     (case to_csv df filename of
        None \<Rightarrow> Inr [(INFO, ''Data exported successfully to %s'', [ArgStr filename])]
      | Some error \<Rightarrow> Inr [(ERROR, ''Error exporting data to CSV: %s'', [ArgExc error])])"

section \<open>Vocabulary of the properties\<close>

text \<open>
  The day after a date in the calendar, to state the boundary of the cutoff
  (\<^verbatim>\<open>d + timedelta(days=1)\<close>).
\<close>

definition next_day :: "py_date \<Rightarrow> py_date" where
  "next_day a =
     (if day a < days_in_month (year a) (month a)
      then \<lparr>year = year a, month = month a, day = day a + 1\<rparr>
      else if month a < 12 then \<lparr>year = year a, month = month a + 1, day = 1\<rparr>
      else \<lparr>year = year a + 1, month = 1, day = 1\<rparr>)"

text \<open>
  What a dependent look-up yields for an id: nothing when the id is absent or empty,
  when the request fails, or when the response is an empty object.
\<close>

definition looked_up :: "network \<Rightarrow> string \<Rightarrow> string option \<Rightarrow> json_object option" where
  "looked_up net url ident =
     (case ident of
        None \<Rightarrow> None
      | Some i \<Rightarrow>
          if i = [] then None
          else (case resource net (url @ i) of
                  None \<Rightarrow> None
                | Some response \<Rightarrow> if response = [] then None else Some response))"

definition field :: "string \<Rightarrow> json_object option \<Rightarrow> pyval" where
  "field k response = (case response of None \<Rightarrow> PNone | Some d \<Rightarrow> dict_get d k)"

text \<open>
  The specification's EnrichedLaunchRecord of one raw record: the record joined with
  the booster name, the payload's mass and orbit, the launch site and the core, and
  the fields of its core usage copied through.
\<close>

definition enriched_launch_record :: "network \<Rightarrow> raw_launch \<Rightarrow> launch_row" where
  "enriched_launch_record net r =
     \<lparr>FlightNumber = flight_number r,
      Date = date_utc r,
      BoosterVersion = field ''name'' (looked_up net ROCKETS_URL (rocket r)),
      PayloadMass = field ''mass_kg'' (looked_up net PAYLOADS_URL (Some (payloads r))),
      Orbit = field ''orbit'' (looked_up net PAYLOADS_URL (Some (payloads r))),
      LaunchSite = field ''name'' (looked_up net LAUNCHPADS_URL (launchpad r)),
      Outcome = str_bool (landing_success (cores r)) @ '' '' @ str_str (landing_type (cores r)),
      Flights = flight (cores r),
      GridFins = gridfins (cores r),
      Reused = reused (cores r),
      Legs = legs (cores r),
      LandingPad = landpad (cores r),
      Block = field ''block'' (looked_up net CORES_URL (core (cores r))),
      ReusedCount = field ''reuse_count'' (looked_up net CORES_URL (core (cores r))),
      Serial = field ''serial'' (looked_up net CORES_URL (core (cores r))),
      Longitude = field ''longitude'' (looked_up net LAUNCHPADS_URL (launchpad r)),
      Latitude = field ''latitude'' (looked_up net LAUNCHPADS_URL (launchpad r))\<rparr>"

text \<open>
  The entries of the listing that the specification's normalizer keeps: one payload,
  one core, and a date not later than the cutoff.
\<close>

definition kept :: "py_date \<Rightarrow> launch_entry \<Rightarrow> bool" where
  "kept cutoff e =
     (length (payloads e) = 1 \<and> length (cores e) = 1 \<and>
      (case to_date (date_utc e) of Inl _ \<Rightarrow> False | Inr d \<Rightarrow> date_le d cutoff))"

text \<open>An entry of the listing and the row made of it correspond.\<close>

definition row_of_entry :: "launch_entry \<Rightarrow> raw_launch \<Rightarrow> bool" where
  "row_of_entry e r =
     (payloads e = [payloads r] \<and> cores e = [cores r] \<and> rocket r = rocket e
      \<and> launchpad r = launchpad e \<and> flight_number r = flight_number e
      \<and> date_utc r = date_utc e \<and> to_date (date_utc e) = Inr (date r))"

text \<open>
  A dependent look-up fails for a record when the record has no id (it is absent or
  empty) or when the request for the id fails.
\<close>

definition lookup_fails :: "network \<Rightarrow> string \<Rightarrow> string option \<Rightarrow> bool" where
  "lookup_fails net url ident =
     (case ident of None \<Rightarrow> True | Some i \<Rightarrow> i = [] \<or> resource net (url @ i) = None)"

section \<open>A worked example\<close>

text \<open>
  A listing of five launches and the resources of a network, to run the pipeline on:
  a Falcon 1 launch, a launch with two payloads, a launch on the cutoff date, a launch
  whose rocket id no resource answers, and a launch on the day after the cutoff.
  \<open>example_raw\<close> is the table that \<^verbatim>\<open>fetch_launch_data\<close> makes of the listing under
  the default cutoff (lemma \<open>example_fetch\<close> below).
\<close>

definition example_core :: core_usage where
  "example_core =
     \<lparr>core = Some ''b1049'', flight = Some 7, gridfins = Some True, reused = Some True,
      legs = Some True, landpad = Some ''ocisly'', landing_success = Some True,
      landing_type = Some ''ASDS''\<rparr>"

definition example_core_unknown :: core_usage where
  "example_core_unknown =
     \<lparr>core = None, flight = None, gridfins = None, reused = None, legs = None,
      landpad = None, landing_success = None, landing_type = None\<rparr>"

definition example_listing :: "launch_entry list" where
  "example_listing =
     [\<lparr>rocket = Some ''falcon1'', payloads = [''p1''], launchpad = Some ''kwajalein'',
       cores = [example_core_unknown], flight_number = 1,
       date_utc = ''2006-03-24T22:30:00.000Z'', date = ()\<rparr>,
      \<lparr>rocket = Some ''falcon9'', payloads = [''p2'', ''p3''], launchpad = Some ''ccsfs'',
       cores = [example_core], flight_number = 2,
       date_utc = ''2010-06-04T18:45:00.000Z'', date = ()\<rparr>,
      \<lparr>rocket = Some ''falcon9'', payloads = [''p4''], launchpad = Some ''ccsfs'',
       cores = [example_core], flight_number = 3,
       date_utc = ''2020-11-13T23:59:59.000Z'', date = ()\<rparr>,
      \<lparr>rocket = Some ''retired'', payloads = [''p5''], launchpad = None,
       cores = [example_core], flight_number = 4,
       date_utc = ''2019-01-11T15:31:00.000Z'', date = ()\<rparr>,
      \<lparr>rocket = Some ''falcon9'', payloads = [''p6''], launchpad = Some ''ccsfs'',
       cores = [example_core], flight_number = 5,
       date_utc = ''2020-11-14T00:00:00.000Z'', date = ()\<rparr>]"

definition example_raw :: "raw_launch frame" where
  "example_raw =
     [(0, \<lparr>rocket = Some ''falcon1'', payloads = ''p1'', launchpad = Some ''kwajalein'',
           cores = example_core_unknown, flight_number = 1,
           date_utc = ''2006-03-24T22:30:00.000Z'',
           date = \<lparr>year = 2006, month = 3, day = 24\<rparr>\<rparr>),
      (1, \<lparr>rocket = Some ''falcon9'', payloads = ''p4'', launchpad = Some ''ccsfs'',
           cores = example_core, flight_number = 3,
           date_utc = ''2020-11-13T23:59:59.000Z'',
           date = \<lparr>year = 2020, month = 11, day = 13\<rparr>\<rparr>),
      (2, \<lparr>rocket = Some ''retired'', payloads = ''p5'', launchpad = None,
           cores = example_core, flight_number = 4,
           date_utc = ''2019-01-11T15:31:00.000Z'',
           date = \<lparr>year = 2019, month = 1, day = 11\<rparr>\<rparr>)]"

definition example_network :: network where
  "example_network =
     \<lparr>listing = Some example_listing,
      resource = (\<lambda>url.
        if url = ROCKETS_URL @ ''falcon1'' then Some [(''name'', PStr ''Falcon 1'')]
        else if url = ROCKETS_URL @ ''falcon9'' then Some [(''name'', PStr ''Falcon 9'')]
        else if url = LAUNCHPADS_URL @ ''ccsfs''
          then Some [(''name'', PStr ''CCSFS SLC 40''), (''longitude'', PFloat (- 80.5)),
                     (''latitude'', PFloat 28.5)]
        else if url = PAYLOADS_URL @ ''p4''
          then Some [(''mass_kg'', PInt 15600), (''orbit'', PStr ''VLEO'')]
        else if url = CORES_URL @ ''b1049''
          then Some [(''block'', PInt 5), (''reuse_count'', PInt 6), (''serial'', PStr ''B1049'')]
        else None)\<rparr>"

section \<open>Properties of the API pipeline\<close>

subsection \<open>The normalizer \<^verbatim>\<open>fetch_launch_data\<close>\<close>

lemma map_rows_Inr:
  "map_rows f df = Inr df' \<Longrightarrow>
   list_all2 (\<lambda>x y. fst y = fst x \<and> f (snd x) = Inr (snd y)) df df'"
proof (induction df arbitrary: df')
  case Nil
  then show ?case by simp
next
  case (Cons x df)
  obtain i r where x: "x = (i, r)" by (cases x)
  from Cons.prems x obtain r' rs' where
    "f r = Inr r'" "map_rows f df = Inr rs'" "df' = (i, r') # rs'"
    by (auto split: sum.splits)
  with Cons.IH [of rs'] x show ?case by simp
qed

lemma map_rows_total:
  "list_all2 (\<lambda>x y. fst y = fst x \<and> f (snd x) = Inr (snd y)) df df' \<Longrightarrow> map_rows f df = Inr df'"
proof (induction df arbitrary: df')
  case Nil
  then show ?case by simp
next
  case (Cons x df)
  then show ?case by (cases x) (auto simp: list_all2_Cons1)
qed

lemma map_rows_map:
  assumes "\<forall>x\<in>set df. f (snd x) = Inr (g (snd x))"
  shows "map_rows f df = Inr (map (\<lambda>x. (fst x, g (snd x))) df)"
  using assms by (intro map_rows_total) (simp add: list_all2_map2 list.rel_refl_strong)

lemma map_rows_Inr_map:
  assumes "map_rows f df = Inr df'"
  shows "(\<forall>x\<in>set df. f (snd x) = Inr (projr (f (snd x))))
    \<and> df' = map (\<lambda>x. (fst x, projr (f (snd x)))) df"
proof -
  let ?g = "\<lambda>r. projr (f r)"
  from map_rows_Inr [OF assms]
  have rel: "list_all2 (\<lambda>x y. fst y = fst x \<and> f (snd x) = Inr (snd y)) df df'" .
  then have len: "length df = length df'" by (rule list_all2_lengthD)
  have "\<forall>x\<in>set df. f (snd x) = Inr (?g (snd x))"
  proof
    fix x assume "x \<in> set df"
    then obtain n where "n < length df" "df ! n = x" by (auto simp: in_set_conv_nth)
    with rel have "f (snd x) = Inr (snd (df' ! n))" by (auto dest: list_all2_nthD)
    then show "f (snd x) = Inr (?g (snd x))" by simp
  qed
  moreover have "df' = map (\<lambda>x. (fst x, ?g (snd x))) df"
  proof (rule nth_equalityI)
    show "length df' = length (map (\<lambda>x. (fst x, ?g (snd x))) df)" using len by simp
  next
    fix n assume "n < length df'"
    with len rel have "fst (df' ! n) = fst (df ! n)" "f (snd (df ! n)) = Inr (snd (df' ! n))"
      by (auto dest: list_all2_nthD)
    with \<open>n < length df'\<close> len show "df' ! n = map (\<lambda>x. (fst x, ?g (snd x))) df ! n"
      by (simp add: prod_eq_iff)
  qed
  ultimately show ?thesis by simp
qed

lemma map_snd_filter_zip:
  "length is = length xs \<Longrightarrow> map snd (filter (\<lambda>(i, r). P r) (zip is xs)) = filter P xs"
  by (induction "is" xs rule: list_induct2) auto

lemma map_snd_filter_snd:
  "map snd (filter (\<lambda>(i, r). P r) df) = filter P (map snd df)"
  by (induction df) auto

lemma reset_index_fst: "map fst (reset_index df) = [0..<length (reset_index df)]"
  by (simp add: reset_index_def)

lemma reset_index_snd: "map snd (reset_index df) = map snd df"
  by (simp add: reset_index_def)

lemma first_single: "length xs = 1 \<Longrightarrow> first xs = Inr (hd xs)"
  by (cases xs) auto

lemma unwrapped_row:
  assumes "length (cores e) = 1" "length (payloads e) = 1"
    and "unwrap_cores e = Inr a" "unwrap_payloads a = Inr b" "derive_date b = Inr r"
  shows "row_of_entry e r"
proof -
  from assms(1) obtain c where c: "cores e = [c]" by (cases "cores e") auto
  from assms(2) obtain p where p: "payloads e = [p]" by (cases "payloads e") auto
  from assms(3) c have a: "a = \<lparr>rocket = rocket e, payloads = payloads e, launchpad = launchpad e,
      cores = c, flight_number = flight_number e, date_utc = date_utc e, date = date e\<rparr>"
    by (simp add: unwrap_cores_def)
  from assms(4) a p have b: "b = \<lparr>rocket = rocket e, payloads = p, launchpad = launchpad e,
      cores = c, flight_number = flight_number e, date_utc = date_utc e, date = date e\<rparr>"
    by (simp add: unwrap_payloads_def)
  from assms(5) b obtain d where "to_date (date_utc e) = Inr d"
    "r = \<lparr>rocket = rocket e, payloads = p, launchpad = launchpad e,
      cores = c, flight_number = flight_number e, date_utc = date_utc e, date = d\<rparr>"
    by (auto simp: derive_date_def split: sum.splits)
  with c p show ?thesis by (simp add: row_of_entry_def)
qed

lemma list_all2_map_self:
  "(\<forall>x\<in>set xs. R x (g x)) \<Longrightarrow> list_all2 R xs (map g xs)"
  by (simp add: list_all2_map2 list.rel_refl_strong)

text \<open>
  What \<^verbatim>\<open>fetch_launch_data\<close> stores when it returns: only \<^verbatim>\<open>raw_data\<close> changes, the
  rows are labelled from zero, and they are, in order, the rows of the entries with one
  payload, one core and a date up to the cutoff.
\<close>

lemma fetch_launch_data_Inr:
  assumes "fetch_launch_data (Some entries) s = Inr s'"
  shows "entries \<noteq> [] \<and> (\<exists>df. s' = s\<lparr>raw_data := Some df\<rparr> \<and> map fst df = [0..<length df]
           \<and> list_all2 row_of_entry (filter (kept (limit_date s)) entries) (map snd df))"
proof -
  let ?single = "\<lambda>e::launch_entry. length (cores e) = 1 \<and> length (payloads e) = 1"
  let ?df2 = "filter (\<lambda>(i, r). length (payloads r) = 1)
                (filter (\<lambda>(i, r). length (cores r) = 1) (zip [0..<length entries] entries))"
  let ?late = "\<lambda>r::raw_launch. date_le (date r) (limit_date s)"
  from assms have ne: "entries \<noteq> []"
    by (auto simp: fetch_launch_data_def)
  with assms obtain df3 df4 df5 where
    m1: "map_rows unwrap_cores ?df2 = Inr df3" and
    m2: "map_rows unwrap_payloads df3 = Inr df4" and
    m3: "map_rows derive_date df4 = Inr df5" and
    s': "s' = s\<lparr>raw_data := Some (reset_index (filter (\<lambda>(i, r). ?late r) df5))\<rparr>"
    by (auto simp: fetch_launch_data_def Let_def split: sum.splits)
  let ?g1 = "\<lambda>r. projr (unwrap_cores r)"
  let ?g2 = "\<lambda>r. projr (unwrap_payloads r)"
  let ?g3 = "\<lambda>r. projr (derive_date r)"
  let ?G = "\<lambda>e. ?g3 (?g2 (?g1 e))"
  let ?es = "filter ?single entries"
  have es: "map snd ?df2 = ?es"
  proof -
    have "map snd ?df2 = filter (\<lambda>r. length (payloads r) = 1)
        (map snd (filter (\<lambda>(i, r). length (cores r) = 1) (zip [0..<length entries] entries)))"
      by (rule map_snd_filter_snd)
    also have "map snd (filter (\<lambda>(i, r). length (cores r) = 1) (zip [0..<length entries] entries))
        = filter (\<lambda>r. length (cores r) = 1) entries"
      by (rule map_snd_filter_zip) simp
    finally show ?thesis by simp
  qed
  from map_rows_Inr_map [OF m1]
  have u1: "\<forall>x\<in>set ?df2. unwrap_cores (snd x) = Inr (?g1 (snd x))"
    and d3: "df3 = map (\<lambda>x. (fst x, ?g1 (snd x))) ?df2" by blast+
  from map_rows_Inr_map [OF m2]
  have u2: "\<forall>x\<in>set df3. unwrap_payloads (snd x) = Inr (?g2 (snd x))"
    and d4: "df4 = map (\<lambda>x. (fst x, ?g2 (snd x))) df3" by blast+
  from map_rows_Inr_map [OF m3]
  have u3: "\<forall>x\<in>set df4. derive_date (snd x) = Inr (?g3 (snd x))"
    and d5: "df5 = map (\<lambda>x. (fst x, ?g3 (snd x))) df4" by blast+
  have rows5: "map snd df5 = map ?G ?es"
    unfolding d5 d4 d3 es [symmetric] by (simp add: comp_def)
  have row: "row_of_entry e (?G e)" if "e \<in> set ?es" for e
  proof -
    from that es obtain x where x: "x \<in> set ?df2" "snd x = e"
      by (metis (no_types, lifting) imageE list.set_map)
    from that have single: "length (cores e) = 1" "length (payloads e) = 1" by auto
    from u1 x have a: "unwrap_cores e = Inr (?g1 e)" by auto
    from x d3 have "(fst x, ?g1 e) \<in> set df3" by force
    with u2 have b: "unwrap_payloads (?g1 e) = Inr (?g2 (?g1 e))" by force
    from x d3 d4 have "(fst x, ?g2 (?g1 e)) \<in> set df4" by force
    with u3 have "derive_date (?g2 (?g1 e)) = Inr (?G e)" by force
    with single a b show ?thesis by (rule unwrapped_row)
  qed
  have keep: "filter (\<lambda>e. ?late (?G e)) ?es = filter (kept (limit_date s)) entries"
  proof -
    have "filter (\<lambda>e. ?late (?G e)) ?es = filter (kept (limit_date s)) ?es"
    proof (rule filter_cong [OF refl])
      fix e assume "e \<in> set ?es"
      from row [OF this] have "to_date (date_utc e) = Inr (date (?G e))"
        by (simp add: row_of_entry_def)
      with \<open>e \<in> set ?es\<close> show "?late (?G e) = kept (limit_date s) e"
        by (simp add: kept_def)
    qed
    also have "\<dots> = filter (kept (limit_date s)) entries"
      by (auto simp: kept_def intro: filter_cong)
    finally show ?thesis .
  qed
  let ?df = "reset_index (filter (\<lambda>(i, r). ?late r) df5)"
  have "map snd ?df = map snd (filter (\<lambda>(i, r). ?late r) df5)"
    by (rule reset_index_snd)
  also have "\<dots> = filter ?late (map snd df5)"
    by (rule map_snd_filter_snd)
  also have "\<dots> = map ?G (filter (\<lambda>e. ?late (?G e)) ?es)"
    by (simp only: rows5 filter_map comp_def)
  also have "\<dots> = map ?G (filter (kept (limit_date s)) entries)"
    by (simp only: keep)
  finally have rows: "map snd ?df = map ?G (filter (kept (limit_date s)) entries)" .
  have "list_all2 row_of_entry (filter (kept (limit_date s)) entries)
      (map ?G (filter (kept (limit_date s)) entries))"
  proof (rule list_all2_map_self, rule ballI)
    fix e assume "e \<in> set (filter (kept (limit_date s)) entries)"
    then have "e \<in> set ?es" by (auto simp: kept_def)
    then show "row_of_entry e (?G e)" by (rule row)
  qed
  with rows have "list_all2 row_of_entry (filter (kept (limit_date s)) entries) (map snd ?df)"
    by simp
  with ne s' reset_index_fst [of "filter (\<lambda>(i, r). ?late r) df5"] show ?thesis by blast
qed

text \<open>
  It returns on every listing that is not empty and whose single-payload, single-core
  entries carry a timestamp in the format of the API.
\<close>

lemma fetch_launch_data_returns:
  assumes ne: "entries \<noteq> []"
    and parse: "\<forall>e\<in>set entries. length (cores e) = 1 \<and> length (payloads e) = 1
                  \<longrightarrow> (\<exists>d. to_date (date_utc e) = Inr d)"
  shows "\<exists>s'. fetch_launch_data (Some entries) s = Inr s'"
proof -
  let ?df2 = "filter (\<lambda>(i, r). length (payloads r) = 1)
                (filter (\<lambda>(i, r). length (cores r) = 1) (zip [0..<length entries] entries))"
  let ?g1 = "\<lambda>r::launch_entry. \<lparr>rocket = rocket r, payloads = payloads r, launchpad = launchpad r,
      cores = hd (cores r), flight_number = flight_number r, date_utc = date_utc r, date = date r\<rparr>"
  let ?g2 = "\<lambda>r::(string list, core_usage, unit) launch. \<lparr>rocket = rocket r, payloads = hd (payloads r),
      launchpad = launchpad r, cores = cores r, flight_number = flight_number r,
      date_utc = date_utc r, date = date r\<rparr>"
  let ?g3 = "\<lambda>r::(string, core_usage, unit) launch. \<lparr>rocket = rocket r, payloads = payloads r,
      launchpad = launchpad r, cores = cores r, flight_number = flight_number r,
      date_utc = date_utc r, date = projr (to_date (date_utc r))\<rparr>"
  have mem: "snd x \<in> set entries \<and> length (cores (snd x)) = 1 \<and> length (payloads (snd x)) = 1"
    if "x \<in> set ?df2" for x
    using that by (auto dest: set_zip_rightD)
  have "\<forall>x\<in>set ?df2. unwrap_cores (snd x) = Inr (?g1 (snd x))"
    using mem by (simp add: unwrap_cores_def first_single)
  then have m1: "map_rows unwrap_cores ?df2 = Inr (map (\<lambda>x. (fst x, ?g1 (snd x))) ?df2)"
    by (rule map_rows_map)
  have "\<forall>x\<in>set (map (\<lambda>x. (fst x, ?g1 (snd x))) ?df2). unwrap_payloads (snd x) = Inr (?g2 (snd x))"
    using mem by (auto simp: unwrap_payloads_def first_single)
  then have m2: "map_rows unwrap_payloads (map (\<lambda>x. (fst x, ?g1 (snd x))) ?df2)
      = Inr (map (\<lambda>x. (fst x, ?g2 (snd x))) (map (\<lambda>x. (fst x, ?g1 (snd x))) ?df2))"
    by (rule map_rows_map)
  have "\<forall>x\<in>set (map (\<lambda>x. (fst x, ?g2 (snd x))) (map (\<lambda>x. (fst x, ?g1 (snd x))) ?df2)).
      derive_date (snd x) = Inr (?g3 (snd x))"
  proof
    fix y assume "y \<in> set (map (\<lambda>x. (fst x, ?g2 (snd x))) (map (\<lambda>x. (fst x, ?g1 (snd x))) ?df2))"
    then obtain x where x: "x \<in> set ?df2" and y: "y = (fst x, ?g2 (?g1 (snd x)))" by auto
    from mem [OF x] parse obtain d where "to_date (date_utc (snd x)) = Inr d" by blast
    with y show "derive_date (snd y) = Inr (?g3 (snd y))" by (simp add: derive_date_def)
  qed
  then have m3: "map_rows derive_date (map (\<lambda>x. (fst x, ?g2 (snd x))) (map (\<lambda>x. (fst x, ?g1 (snd x))) ?df2))
      = Inr (map (\<lambda>x. (fst x, ?g3 (snd x))) (map (\<lambda>x. (fst x, ?g2 (snd x))) (map (\<lambda>x. (fst x, ?g1 (snd x))) ?df2)))"
    by (rule map_rows_map)
  show ?thesis
    by (simp only: fetch_launch_data_def Let_def option.case ne if_False m1 m2 m3 sum.case) blast
qed

lemma fetch_launch_data_frame:
  assumes "fetch_launch_data response s = Inr s1"
  shows "\<exists>x. s1 = s\<lparr>raw_data := x\<rparr>"
proof (cases response)
  case None
  with assms have "s1 = s" by (simp add: fetch_launch_data_def)
  then have "s1 = s\<lparr>raw_data := raw_data s\<rparr>" by simp
  then show ?thesis ..
next
  case (Some entries)
  with fetch_launch_data_Inr [of entries s s1] assms show ?thesis by blast
qed

lemma to_date_length: "to_date s = Inr d \<Longrightarrow> length s = 24"
  by (cases s rule: to_date.cases) simp_all

lemma list_all2_left:
  "list_all2 R xs ys \<Longrightarrow> x \<in> set xs \<Longrightarrow> \<exists>y\<in>set ys. R x y"
  by (metis in_set_conv_nth list_all2_conv_all_nth)

lemma list_all2_right:
  "list_all2 R xs ys \<Longrightarrow> y \<in> set ys \<Longrightarrow> \<exists>x\<in>set xs. R x y"
  by (metis in_set_conv_nth list_all2_conv_all_nth)

lemma row_of_entry_row:
  assumes "row_of_entry e r" "cores e = [c]" "payloads e = [p]" "to_date (date_utc e) = Inr dt"
  shows "r = \<lparr>rocket = rocket e, payloads = p, launchpad = launchpad e, cores = c,
              flight_number = flight_number e, date_utc = date_utc e, date = dt\<rparr>"
  using assms by (cases r) (simp add: row_of_entry_def)

lemma date_le_refl: "date_le a a"
  by (simp add: date_le_def)

lemma next_day_later: "\<not> date_le (next_day a) a"
  by (simp add: date_le_def next_day_def)

lemma example_dates:
  "to_date ''2006-03-24T22:30:00.000Z'' = Inr \<lparr>year = 2006, month = 3, day = 24\<rparr>"
  "to_date ''2010-06-04T18:45:00.000Z'' = Inr \<lparr>year = 2010, month = 6, day = 4\<rparr>"
  "to_date ''2020-11-13T23:59:59.000Z'' = Inr \<lparr>year = 2020, month = 11, day = 13\<rparr>"
  "to_date ''2019-01-11T15:31:00.000Z'' = Inr \<lparr>year = 2019, month = 1, day = 11\<rparr>"
  "to_date ''2020-11-14T00:00:00.000Z'' = Inr \<lparr>year = 2020, month = 11, day = 14\<rparr>"
  by (simp_all add: digit_def days_in_month_def leap_year_def)

lemma example_fetch:
  "fetch_launch_data (Some example_listing) (SpaceXDataExtractor default_limit_date)
     = Inr ((SpaceXDataExtractor default_limit_date)\<lparr>raw_data := Some example_raw\<rparr>)"
  by (simp add: fetch_launch_data_def example_listing_def example_raw_def Let_def
      unwrap_cores_def unwrap_payloads_def derive_date_def example_dates reset_index_def
      date_le_def default_limit_date_def SpaceXDataExtractor_def
      digit_def days_in_month_def leap_year_def)

lemma example_raw_length: "length example_raw = 3"
  by (simp add: example_raw_def)

text \<open>
  Claim C3 says that the normalizer outputs the kept entries for every listing. On
  the empty listing it raises instead: \<^verbatim>\<open>pd.json_normalize([])\<close> has no columns, and
  the selection of the six columns is a \<^verbatim>\<open>KeyError\<close>, which \<^verbatim>\<open>process_all_data\<close>
  passes on. On a listing that is not empty the claim holds (lemmas
  \<open>fetch_launch_data_Inr\<close> and \<open>fetch_launch_data_returns\<close>).
\<close>

theorem fetch_launch_data_empty_listing:
  "fetch_launch_data (Some []) s = Inl KeyError
   \<and> process_all_data \<lparr>listing = Some [], resource = r\<rparr> s = Inl KeyError"
  by (simp add: fetch_launch_data_def process_all_data_def)

text \<open>
  Claim C4. The cutoff is inclusive. When \<^verbatim>\<open>fetch_launch_data\<close> returns, the row of
  an entry with one payload and one core is in \<^verbatim>\<open>raw_data\<close> if the date derived from
  its timestamp is the cutoff date, and is not if that date is the day after.
\<close>

theorem cutoff_date_inclusive:
  assumes run: "fetch_launch_data (Some entries) s = Inr s'"
    and e: "e \<in> set entries" "cores e = [c]" "payloads e = [p]"
    and dt: "to_date (date_utc e) = Inr dt"
  shows "\<exists>df. raw_data s' = Some df
     \<and> (dt = limit_date s \<longrightarrow>
          \<lparr>rocket = rocket e, payloads = p, launchpad = launchpad e, cores = c,
           flight_number = flight_number e, date_utc = date_utc e, date = dt\<rparr> \<in> snd ` set df)
     \<and> (dt = next_day (limit_date s) \<longrightarrow>
          \<lparr>rocket = rocket e, payloads = p, launchpad = launchpad e, cores = c,
           flight_number = flight_number e, date_utc = date_utc e, date = dt\<rparr> \<notin> snd ` set df)"
proof -
  let ?row = "\<lparr>rocket = rocket e, payloads = p, launchpad = launchpad e, cores = c,
           flight_number = flight_number e, date_utc = date_utc e, date = dt\<rparr>"
  from fetch_launch_data_Inr [OF run] obtain df where
    s': "s' = s\<lparr>raw_data := Some df\<rparr>" and
    rel: "list_all2 row_of_entry (filter (kept (limit_date s)) entries) (map snd df)"
    by blast
  have at_cutoff: "?row \<in> snd ` set df" if "dt = limit_date s"
  proof -
    from that e dt have "kept (limit_date s) e" by (simp add: kept_def date_le_refl)
    with e(1) have "e \<in> set (filter (kept (limit_date s)) entries)" by simp
    from list_all2_left [OF rel this] obtain r where
      r: "r \<in> set (map snd df)" "row_of_entry e r" by blast
    from row_of_entry_row [OF r(2) e(2) e(3) dt] r(1) show ?thesis by simp
  qed
  have after: "?row \<notin> snd ` set df" if "dt = next_day (limit_date s)"
  proof
    assume "?row \<in> snd ` set df"
    then have "?row \<in> set (map snd df)" by simp
    from list_all2_right [OF rel this] obtain e' where
      e': "e' \<in> set (filter (kept (limit_date s)) entries)" "row_of_entry e' ?row" by blast
    from e'(2) have "to_date (date_utc e') = Inr dt" by (simp add: row_of_entry_def)
    with e'(1) have "date_le dt (limit_date s)" by (simp add: kept_def)
    with that next_day_later show False by simp
  qed
  from s' at_cutoff after show ?thesis by simp
qed

text \<open>
  In the example the launch of 2020-11-13 is kept under the cutoff 2020-11-13 and the
  launch of 2020-11-14 is not.
\<close>

theorem cutoff_date_inclusive_witness:
  "\<exists>s' df. fetch_launch_data (Some example_listing) (SpaceXDataExtractor default_limit_date) = Inr s'
     \<and> raw_data s' = Some df
     \<and> \<lparr>rocket = Some ''falcon9'', payloads = ''p4'', launchpad = Some ''ccsfs'',
         cores = example_core, flight_number = 3, date_utc = ''2020-11-13T23:59:59.000Z'',
         date = \<lparr>year = 2020, month = 11, day = 13\<rparr>\<rparr> \<in> snd ` set df
     \<and> \<lparr>rocket = Some ''falcon9'', payloads = ''p6'', launchpad = Some ''ccsfs'',
         cores = example_core, flight_number = 5, date_utc = ''2020-11-14T00:00:00.000Z'',
         date = \<lparr>year = 2020, month = 11, day = 14\<rparr>\<rparr> \<notin> snd ` set df"
proof -
  let ?s = "SpaceXDataExtractor default_limit_date"
  let ?e3 = "\<lparr>rocket = Some ''falcon9'', payloads = [''p4''], launchpad = Some ''ccsfs'',
       cores = [example_core], flight_number = 3,
       date_utc = ''2020-11-13T23:59:59.000Z'', date = ()\<rparr>"
  let ?e5 = "\<lparr>rocket = Some ''falcon9'', payloads = [''p6''], launchpad = Some ''ccsfs'',
       cores = [example_core], flight_number = 5,
       date_utc = ''2020-11-14T00:00:00.000Z'', date = ()\<rparr>"
  have limit: "limit_date ?s = \<lparr>year = 2020, month = 11, day = 13\<rparr>"
    by (simp add: SpaceXDataExtractor_def default_limit_date_def)
  have after: "next_day (limit_date ?s) = \<lparr>year = 2020, month = 11, day = 14\<rparr>"
    by (simp add: limit next_day_def days_in_month_def)
  have m3: "?e3 \<in> set example_listing" and m5: "?e5 \<in> set example_listing"
    by (simp_all add: example_listing_def)
  have c3: "cores ?e3 = [example_core]" and p3: "payloads ?e3 = [''p4'']"
    and c5: "cores ?e5 = [example_core]" and p5: "payloads ?e5 = [''p6'']" by simp_all
  have d3: "to_date (date_utc ?e3) = Inr \<lparr>year = 2020, month = 11, day = 13\<rparr>"
    and d5: "to_date (date_utc ?e5) = Inr \<lparr>year = 2020, month = 11, day = 14\<rparr>"
    by (simp_all add: example_dates del: to_date.simps)
  from cutoff_date_inclusive [OF example_fetch m3 c3 p3 d3] limit
  have "\<lparr>rocket = Some ''falcon9'', payloads = ''p4'', launchpad = Some ''ccsfs'',
         cores = example_core, flight_number = 3, date_utc = ''2020-11-13T23:59:59.000Z'',
         date = \<lparr>year = 2020, month = 11, day = 13\<rparr>\<rparr> \<in> snd ` set example_raw"
    by simp
  moreover from cutoff_date_inclusive [OF example_fetch m5 c5 p5 d5] after
  have "\<lparr>rocket = Some ''falcon9'', payloads = ''p6'', launchpad = Some ''ccsfs'',
         cores = example_core, flight_number = 5, date_utc = ''2020-11-14T00:00:00.000Z'',
         date = \<lparr>year = 2020, month = 11, day = 14\<rparr>\<rparr> \<notin> snd ` set example_raw"
    by simp
  ultimately show ?thesis using example_fetch by simp
qed

subsection \<open>The enrichment loops\<close>

lemma get_booster_version_step_eq:
  "get_booster_version_step net s ident =
     s\<lparr>booster_versions := booster_versions s @ [field ''name'' (looked_up net ROCKETS_URL ident)]\<rparr>"
  by (simp add: get_booster_version_step_def looked_up_def field_def split: option.splits)

lemma get_launch_site_step_eq:
  "get_launch_site_step net s ident =
     s\<lparr>longitudes := longitudes s @ [field ''longitude'' (looked_up net LAUNCHPADS_URL ident)],
       latitudes := latitudes s @ [field ''latitude'' (looked_up net LAUNCHPADS_URL ident)],
       launch_sites := launch_sites s @ [field ''name'' (looked_up net LAUNCHPADS_URL ident)]\<rparr>"
  by (simp add: get_launch_site_step_def looked_up_def field_def split: option.splits)

lemma get_payload_step_eq:
  "get_payload_step net s ident =
     s\<lparr>payload_masses := payload_masses s @ [field ''mass_kg'' (looked_up net PAYLOADS_URL (Some ident))],
       orbits := orbits s @ [field ''orbit'' (looked_up net PAYLOADS_URL (Some ident))]\<rparr>"
  by (simp add: get_payload_step_def looked_up_def field_def split: option.splits)

lemma get_core_lookup_eq:
  "get_core_lookup net s ident =
     s\<lparr>block_numbers := block_numbers s @ [field ''block'' (looked_up net CORES_URL ident)],
       reuse_counts := reuse_counts s @ [field ''reuse_count'' (looked_up net CORES_URL ident)],
       core_serials := core_serials s @ [field ''serial'' (looked_up net CORES_URL ident)]\<rparr>"
  by (simp add: get_core_lookup_def looked_up_def field_def split: option.splits)

lemma get_core_step_eq:
  "get_core_step net s c =
     s\<lparr>block_numbers := block_numbers s @ [field ''block'' (looked_up net CORES_URL (core c))],
       reuse_counts := reuse_counts s @ [field ''reuse_count'' (looked_up net CORES_URL (core c))],
       core_serials := core_serials s @ [field ''serial'' (looked_up net CORES_URL (core c))],
       outcomes := outcomes s @ [str_bool (landing_success c) @ '' '' @ str_str (landing_type c)],
       flights := flights s @ [flight c],
       grid_fins := grid_fins s @ [gridfins c],
       reused_status := reused_status s @ [reused c],
       legs_list := legs_list s @ [legs c],
       landing_pads := landing_pads s @ [landpad c]\<rparr>"
  by (simp add: get_core_step_def get_core_lookup_eq Let_def)

lemma booster_loop:
  "foldl (get_booster_version_step net) s ids =
     s\<lparr>booster_versions := booster_versions s @ map (\<lambda>i. field ''name'' (looked_up net ROCKETS_URL i)) ids\<rparr>"
  by (induction ids arbitrary: s) (simp_all add: get_booster_version_step_eq)

lemma launch_site_loop:
  "foldl (get_launch_site_step net) s ids =
     s\<lparr>longitudes := longitudes s @ map (\<lambda>i. field ''longitude'' (looked_up net LAUNCHPADS_URL i)) ids,
       latitudes := latitudes s @ map (\<lambda>i. field ''latitude'' (looked_up net LAUNCHPADS_URL i)) ids,
       launch_sites := launch_sites s @ map (\<lambda>i. field ''name'' (looked_up net LAUNCHPADS_URL i)) ids\<rparr>"
  by (induction ids arbitrary: s) (simp_all add: get_launch_site_step_eq)

lemma payload_loop:
  "foldl (get_payload_step net) s ids =
     s\<lparr>payload_masses := payload_masses s @ map (\<lambda>i. field ''mass_kg'' (looked_up net PAYLOADS_URL (Some i))) ids,
       orbits := orbits s @ map (\<lambda>i. field ''orbit'' (looked_up net PAYLOADS_URL (Some i))) ids\<rparr>"
  by (induction ids arbitrary: s) (simp_all add: get_payload_step_eq)

lemma core_loop:
  "foldl (get_core_step net) s cs =
     s\<lparr>block_numbers := block_numbers s @ map (\<lambda>c. field ''block'' (looked_up net CORES_URL (core c))) cs,
       reuse_counts := reuse_counts s @ map (\<lambda>c. field ''reuse_count'' (looked_up net CORES_URL (core c))) cs,
       core_serials := core_serials s @ map (\<lambda>c. field ''serial'' (looked_up net CORES_URL (core c))) cs,
       outcomes := outcomes s @ map (\<lambda>c. str_bool (landing_success c) @ '' '' @ str_str (landing_type c)) cs,
       flights := flights s @ map flight cs,
       grid_fins := grid_fins s @ map gridfins cs,
       reused_status := reused_status s @ map reused cs,
       legs_list := legs_list s @ map legs cs,
       landing_pads := landing_pads s @ map landpad cs\<rparr>"
  by (induction cs arbitrary: s) (simp_all add: get_core_step_eq)

lemma get_booster_version_data_eq:
  "raw_data s = Some raw \<Longrightarrow> get_booster_version_data net s =
     s\<lparr>booster_versions := booster_versions s @
         map (\<lambda>x. BoosterVersion (enriched_launch_record net (snd x))) raw\<rparr>"
  by (simp add: get_booster_version_data_def booster_loop enriched_launch_record_def
      case_prod_beta comp_def)

lemma get_launch_site_data_eq:
  "raw_data s = Some raw \<Longrightarrow> get_launch_site_data net s =
     s\<lparr>longitudes := longitudes s @ map (\<lambda>x. Longitude (enriched_launch_record net (snd x))) raw,
       latitudes := latitudes s @ map (\<lambda>x. Latitude (enriched_launch_record net (snd x))) raw,
       launch_sites := launch_sites s @ map (\<lambda>x. LaunchSite (enriched_launch_record net (snd x))) raw\<rparr>"
  by (simp add: get_launch_site_data_def launch_site_loop enriched_launch_record_def
      case_prod_beta comp_def)

lemma get_payload_data_eq:
  "raw_data s = Some raw \<Longrightarrow> get_payload_data net s =
     s\<lparr>payload_masses := payload_masses s @ map (\<lambda>x. PayloadMass (enriched_launch_record net (snd x))) raw,
       orbits := orbits s @ map (\<lambda>x. Orbit (enriched_launch_record net (snd x))) raw\<rparr>"
  by (simp add: get_payload_data_def payload_loop enriched_launch_record_def
      case_prod_beta comp_def)

lemma get_core_data_eq:
  "raw_data s = Some raw \<Longrightarrow> get_core_data net s =
     s\<lparr>block_numbers := block_numbers s @ map (\<lambda>x. Block (enriched_launch_record net (snd x))) raw,
       reuse_counts := reuse_counts s @ map (\<lambda>x. ReusedCount (enriched_launch_record net (snd x))) raw,
       core_serials := core_serials s @ map (\<lambda>x. Serial (enriched_launch_record net (snd x))) raw,
       outcomes := outcomes s @ map (\<lambda>x. Outcome (enriched_launch_record net (snd x))) raw,
       flights := flights s @ map (\<lambda>x. Flights (enriched_launch_record net (snd x))) raw,
       grid_fins := grid_fins s @ map (\<lambda>x. GridFins (enriched_launch_record net (snd x))) raw,
       reused_status := reused_status s @ map (\<lambda>x. Reused (enriched_launch_record net (snd x))) raw,
       legs_list := legs_list s @ map (\<lambda>x. Legs (enriched_launch_record net (snd x))) raw,
       landing_pads := landing_pads s @ map (\<lambda>x. LandingPad (enriched_launch_record net (snd x))) raw\<rparr>"
  by (simp add: get_core_data_def core_loop enriched_launch_record_def
      case_prod_beta comp_def)

lemma enriched_state:
  "get_core_data net (get_payload_data net (get_launch_site_data net
     (get_booster_version_data net ((SpaceXDataExtractor d)\<lparr>raw_data := Some raw\<rparr>)))) =
   \<lparr>limit_date = d,
    booster_versions = map (\<lambda>x. BoosterVersion (enriched_launch_record net (snd x))) raw,
    payload_masses = map (\<lambda>x. PayloadMass (enriched_launch_record net (snd x))) raw,
    orbits = map (\<lambda>x. Orbit (enriched_launch_record net (snd x))) raw,
    launch_sites = map (\<lambda>x. LaunchSite (enriched_launch_record net (snd x))) raw,
    outcomes = map (\<lambda>x. Outcome (enriched_launch_record net (snd x))) raw,
    flights = map (\<lambda>x. Flights (enriched_launch_record net (snd x))) raw,
    grid_fins = map (\<lambda>x. GridFins (enriched_launch_record net (snd x))) raw,
    reused_status = map (\<lambda>x. Reused (enriched_launch_record net (snd x))) raw,
    legs_list = map (\<lambda>x. Legs (enriched_launch_record net (snd x))) raw,
    landing_pads = map (\<lambda>x. LandingPad (enriched_launch_record net (snd x))) raw,
    block_numbers = map (\<lambda>x. Block (enriched_launch_record net (snd x))) raw,
    reuse_counts = map (\<lambda>x. ReusedCount (enriched_launch_record net (snd x))) raw,
    core_serials = map (\<lambda>x. Serial (enriched_launch_record net (snd x))) raw,
    longitudes = map (\<lambda>x. Longitude (enriched_launch_record net (snd x))) raw,
    latitudes = map (\<lambda>x. Latitude (enriched_launch_record net (snd x))) raw,
    raw_data = Some raw,
    processed_data = None\<rparr>"
  by (simp add: get_booster_version_data_eq get_launch_site_data_eq get_payload_data_eq
      get_core_data_eq SpaceXDataExtractor_def)

lemma lookup_fails_looked_up: "lookup_fails net url ident \<Longrightarrow> looked_up net url ident = None"
  by (auto simp: lookup_fails_def looked_up_def split: option.splits)

lemma lookup_fails_field: "lookup_fails net url ident \<Longrightarrow> field k (looked_up net url ident) = PNone"
  by (simp add: lookup_fails_looked_up field_def)

lemma example_boosters:
  "BoosterVersion (enriched_launch_record example_network (snd (example_raw ! 0))) = PStr ''Falcon 1''"
  "BoosterVersion (enriched_launch_record example_network (snd (example_raw ! 1))) = PStr ''Falcon 9''"
  "BoosterVersion (enriched_launch_record example_network (snd (example_raw ! Suc 0))) = PStr ''Falcon 9''"
  "BoosterVersion (enriched_launch_record example_network (snd (example_raw ! 2))) = PNone"
  by (simp_all add: enriched_launch_record_def example_raw_def example_network_def looked_up_def
      field_def dict_get_def ROCKETS_URL_def LAUNCHPADS_URL_def PAYLOADS_URL_def CORES_URL_def)

text \<open>
  Claim C6. For the record at every position, \<^verbatim>\<open>get_core_data\<close> appends the text of
  the landing-success flag, one space, and the text of the landing type. An absent
  flag or type is written as the text None, so that two absent components give
  "None None".
\<close>

theorem outcome_string:
  assumes "raw_data s = Some raw" and "i < length raw"
  shows "outcomes (get_core_data net s) ! (length (outcomes s) + i) =
           str_bool (landing_success (cores (snd (raw ! i)))) @ '' '' @
           str_str (landing_type (cores (snd (raw ! i))))
       \<and> str_bool None = ''None'' \<and> str_bool (Some True) = ''True''
       \<and> str_bool (Some False) = ''False''
       \<and> str_str None = ''None'' \<and> (\<forall>t. str_str (Some t) = t)"
  using assms
  by (simp add: get_core_data_eq enriched_launch_record_def str_bool_def str_str_def)

text \<open>
  In the example the first record has neither flag nor type, the second landed on a
  drone ship.
\<close>

theorem outcome_string_witness:
  "outcomes (get_core_data example_network
      ((SpaceXDataExtractor default_limit_date)\<lparr>raw_data := Some example_raw\<rparr>)) ! 0 = ''None None''
   \<and> outcomes (get_core_data example_network
      ((SpaceXDataExtractor default_limit_date)\<lparr>raw_data := Some example_raw\<rparr>)) ! 1 = ''True ASDS''"
proof -
  let ?s = "(SpaceXDataExtractor default_limit_date)\<lparr>raw_data := Some example_raw\<rparr>"
  have raw: "raw_data ?s = Some example_raw" by simp
  have none: "length (outcomes ?s) = 0" by (simp add: SpaceXDataExtractor_def)
  have i0: "0 < length example_raw" and i1: "1 < length example_raw"
    by (simp_all add: example_raw_def)
  have r0: "landing_success (cores (snd (example_raw ! 0))) = None"
    "landing_type (cores (snd (example_raw ! 0))) = None"
    by (simp_all add: example_raw_def example_core_unknown_def)
  have r1: "landing_success (cores (snd (example_raw ! 1))) = Some True"
    "landing_type (cores (snd (example_raw ! 1))) = Some ''ASDS''"
    by (simp_all add: example_raw_def example_core_def)
  from outcome_string [OF raw i0, of example_network]
  have "outcomes (get_core_data example_network ?s) ! 0 = ''None None''"
    unfolding none r0 by simp
  moreover from outcome_string [OF raw i1, of example_network]
  have "outcomes (get_core_data example_network ?s) ! 1 = ''True ASDS''"
    unfolding none r1 by simp
  ultimately show ?thesis by simp
qed

text \<open>
  Claim C7. After the four loops have run over the \<open>N\<close> rows of \<^verbatim>\<open>raw_data\<close> of a
  fresh extractor, each of the fifteen accumulators has length \<open>N\<close>, its element at
  position \<open>i\<close> is the field of the enriched record of row \<open>i\<close>, and the fields of a
  look-up that fails for row \<open>i\<close> are null at position \<open>i\<close>.
\<close>

theorem enrichment_keeps_alignment:
  assumes "i < length raw"
  shows "let s = get_core_data net (get_payload_data net (get_launch_site_data net
                   (get_booster_version_data net ((SpaceXDataExtractor d)\<lparr>raw_data := Some raw\<rparr>))));
             r = snd (raw ! i);
             e = enriched_launch_record net r
         in length (booster_versions s) = length raw \<and> length (payload_masses s) = length raw
          \<and> length (orbits s) = length raw \<and> length (launch_sites s) = length raw
          \<and> length (outcomes s) = length raw \<and> length (flights s) = length raw
          \<and> length (grid_fins s) = length raw \<and> length (reused_status s) = length raw
          \<and> length (legs_list s) = length raw \<and> length (landing_pads s) = length raw
          \<and> length (block_numbers s) = length raw \<and> length (reuse_counts s) = length raw
          \<and> length (core_serials s) = length raw \<and> length (longitudes s) = length raw
          \<and> length (latitudes s) = length raw
          \<and> booster_versions s ! i = BoosterVersion e \<and> payload_masses s ! i = PayloadMass e
          \<and> orbits s ! i = Orbit e \<and> launch_sites s ! i = LaunchSite e
          \<and> outcomes s ! i = Outcome e \<and> flights s ! i = Flights e
          \<and> grid_fins s ! i = GridFins e \<and> reused_status s ! i = Reused e
          \<and> legs_list s ! i = Legs e \<and> landing_pads s ! i = LandingPad e
          \<and> block_numbers s ! i = Block e \<and> reuse_counts s ! i = ReusedCount e
          \<and> core_serials s ! i = Serial e \<and> longitudes s ! i = Longitude e
          \<and> latitudes s ! i = Latitude e
          \<and> (lookup_fails net ROCKETS_URL (rocket r) \<longrightarrow> booster_versions s ! i = PNone)
          \<and> (lookup_fails net PAYLOADS_URL (Some (payloads r)) \<longrightarrow>
                payload_masses s ! i = PNone \<and> orbits s ! i = PNone)
          \<and> (lookup_fails net LAUNCHPADS_URL (launchpad r) \<longrightarrow>
                launch_sites s ! i = PNone \<and> longitudes s ! i = PNone \<and> latitudes s ! i = PNone)
          \<and> (lookup_fails net CORES_URL (core (cores r)) \<longrightarrow>
                block_numbers s ! i = PNone \<and> reuse_counts s ! i = PNone \<and> core_serials s ! i = PNone)"
proof -
  let ?r = "snd (raw ! i)"
  have rocket: "lookup_fails net ROCKETS_URL (rocket ?r) \<longrightarrow>
      BoosterVersion (enriched_launch_record net ?r) = PNone"
    by (simp add: enriched_launch_record_def lookup_fails_field)
  have payload: "lookup_fails net PAYLOADS_URL (Some (payloads ?r)) \<longrightarrow>
      PayloadMass (enriched_launch_record net ?r) = PNone \<and> Orbit (enriched_launch_record net ?r) = PNone"
    by (simp add: enriched_launch_record_def lookup_fails_field)
  have site: "lookup_fails net LAUNCHPADS_URL (launchpad ?r) \<longrightarrow>
      LaunchSite (enriched_launch_record net ?r) = PNone \<and> Longitude (enriched_launch_record net ?r) = PNone
      \<and> Latitude (enriched_launch_record net ?r) = PNone"
    by (simp add: enriched_launch_record_def lookup_fails_field)
  have core: "lookup_fails net CORES_URL (core (cores ?r)) \<longrightarrow>
      Block (enriched_launch_record net ?r) = PNone \<and> ReusedCount (enriched_launch_record net ?r) = PNone
      \<and> Serial (enriched_launch_record net ?r) = PNone"
    by (simp add: enriched_launch_record_def lookup_fails_field)
  from assms rocket payload site core show ?thesis
    unfolding enriched_state Let_def by simp
qed

text \<open>
  In the example the third row names a rocket that no resource answers and has no
  launch site.
\<close>

theorem enrichment_keeps_alignment_witness:
  "length (booster_versions (get_core_data example_network (get_payload_data example_network
      (get_launch_site_data example_network (get_booster_version_data example_network
        ((SpaceXDataExtractor default_limit_date)\<lparr>raw_data := Some example_raw\<rparr>)))))) = 3
   \<and> booster_versions (get_core_data example_network (get_payload_data example_network
      (get_launch_site_data example_network (get_booster_version_data example_network
        ((SpaceXDataExtractor default_limit_date)\<lparr>raw_data := Some example_raw\<rparr>))))) ! 1
       = PStr ''Falcon 9''
   \<and> booster_versions (get_core_data example_network (get_payload_data example_network
      (get_launch_site_data example_network (get_booster_version_data example_network
        ((SpaceXDataExtractor default_limit_date)\<lparr>raw_data := Some example_raw\<rparr>))))) ! 2
       = PNone
   \<and> launch_sites (get_core_data example_network (get_payload_data example_network
      (get_launch_site_data example_network (get_booster_version_data example_network
        ((SpaceXDataExtractor default_limit_date)\<lparr>raw_data := Some example_raw\<rparr>))))) ! 2
       = PNone"
proof -
  have i1: "1 < length example_raw" and i2: "2 < length example_raw"
    by (simp_all add: example_raw_def)
  have site: "lookup_fails example_network LAUNCHPADS_URL (launchpad (snd (example_raw ! 2)))"
    by (simp add: lookup_fails_def example_raw_def)
  have rocket: "lookup_fails example_network ROCKETS_URL (rocket (snd (example_raw ! 2)))"
    by (simp add: lookup_fails_def example_raw_def example_network_def ROCKETS_URL_def
        LAUNCHPADS_URL_def PAYLOADS_URL_def CORES_URL_def)
  let ?S = "get_core_data example_network (get_payload_data example_network
      (get_launch_site_data example_network (get_booster_version_data example_network
        ((SpaceXDataExtractor default_limit_date)\<lparr>raw_data := Some example_raw\<rparr>))))"
  from enrichment_keeps_alignment [OF i1, of example_network default_limit_date]
  have b1: "booster_versions ?S ! 1 =
      BoosterVersion (enriched_launch_record example_network (snd (example_raw ! 1)))"
    unfolding Let_def by blast
  from enrichment_keeps_alignment [OF i2, of example_network default_limit_date]
  have len: "length (booster_versions ?S) = length example_raw"
    and b2: "lookup_fails example_network ROCKETS_URL (rocket (snd (example_raw ! 2)))
      \<longrightarrow> booster_versions ?S ! 2 = PNone"
    and s2: "lookup_fails example_network LAUNCHPADS_URL (launchpad (snd (example_raw ! 2)))
      \<longrightarrow> launch_sites ?S ! 2 = PNone \<and> longitudes ?S ! 2 = PNone \<and> latitudes ?S ! 2 = PNone"
    unfolding Let_def by blast+
  from len have "length (booster_versions ?S) = 3" by (simp only: example_raw_length)
  moreover from b1 have "booster_versions ?S ! 1 = PStr ''Falcon 9''"
    by (simp only: example_boosters)
  moreover from b2 rocket have "booster_versions ?S ! 2 = PNone" by blast
  moreover from s2 site have "launch_sites ?S ! 2 = PNone" by blast
  ultimately show ?thesis by blast
qed

subsection \<open>Final assembly and the whole run\<close>

lemma launch_data_frame_enriched:
  assumes "s = get_core_data net (get_payload_data net (get_launch_site_data net
     (get_booster_version_data net ((SpaceXDataExtractor d)\<lparr>raw_data := Some raw\<rparr>))))"
  shows "launch_data_frame s raw =
     Inr (map (\<lambda>i. (i, enriched_launch_record net (snd (raw ! i)))) [0..<length raw])"
proof -
  have "launch_data_frame s raw = Inr (map (\<lambda>i. (i,
               \<lparr>FlightNumber = flight_number (snd (raw ! i)),
                Date = date_utc (snd (raw ! i)),
                BoosterVersion = booster_versions s ! i,
                PayloadMass = payload_masses s ! i,
                Orbit = orbits s ! i,
                LaunchSite = launch_sites s ! i,
                Outcome = outcomes s ! i,
                Flights = flights s ! i,
                GridFins = grid_fins s ! i,
                Reused = reused_status s ! i,
                Legs = legs_list s ! i,
                LandingPad = landing_pads s ! i,
                Block = block_numbers s ! i,
                ReusedCount = reuse_counts s ! i,
                Serial = core_serials s ! i,
                Longitude = longitudes s ! i,
                Latitude = latitudes s ! i\<rparr>)) [0..<length raw])"
    unfolding assms enriched_state by (simp add: launch_data_frame_def)
  also have "\<dots> = Inr (map (\<lambda>i. (i, enriched_launch_record net (snd (raw ! i)))) [0..<length raw])"
    unfolding assms enriched_state by (simp add: enriched_launch_record_def)
  finally show ?thesis .
qed

lemma create_dataframe_enriched:
  assumes "s = get_core_data net (get_payload_data net (get_launch_site_data net
     (get_booster_version_data net ((SpaceXDataExtractor d)\<lparr>raw_data := Some raw\<rparr>))))"
  shows "create_dataframe s =
     Inr (s\<lparr>processed_data := Some (filter (\<lambda>(i, r). BoosterVersion r \<noteq> PStr ''Falcon 1'')
            (map (\<lambda>i. (i, enriched_launch_record net (snd (raw ! i)))) [0..<length raw]))\<rparr>)"
proof -
  have "raw_data s = Some raw" unfolding assms enriched_state by simp
  then show ?thesis
    by (simp add: create_dataframe_def launch_data_frame_enriched [OF assms])
qed

lemma process_all_data_run:
  assumes "fetch_launch_data (listing net) (SpaceXDataExtractor d) = Inr s1"
    and "raw_data s1 = Some raw" and "raw \<noteq> []"
  shows "process_all_data net (SpaceXDataExtractor d) =
     Inr ((get_core_data net (get_payload_data net (get_launch_site_data net
            (get_booster_version_data net ((SpaceXDataExtractor d)\<lparr>raw_data := Some raw\<rparr>)))))
          \<lparr>processed_data := Some (filter (\<lambda>(i, r). BoosterVersion r \<noteq> PStr ''Falcon 1'')
            (map (\<lambda>i. (i, enriched_launch_record net (snd (raw ! i)))) [0..<length raw]))\<rparr>)"
proof -
  from fetch_launch_data_frame [OF assms(1)] assms(2)
  have s1: "s1 = (SpaceXDataExtractor d)\<lparr>raw_data := Some raw\<rparr>" by auto
  show ?thesis
    unfolding process_all_data_def assms(1)
    using assms(3) by (simp add: s1 Let_def create_dataframe_enriched [OF refl])
qed

lemma process_all_data_table:
  assumes run: "process_all_data net (SpaceXDataExtractor d) = Inr s'"
    and tbl: "processed_data s' = Some tbl"
  shows "\<exists>raw. raw \<noteq> [] \<and> raw_data s' = Some raw
     \<and> fetch_launch_data (listing net) (SpaceXDataExtractor d)
          = Inr ((SpaceXDataExtractor d)\<lparr>raw_data := Some raw\<rparr>)
     \<and> tbl = filter (\<lambda>(i, r). BoosterVersion r \<noteq> PStr ''Falcon 1'')
            (map (\<lambda>i. (i, enriched_launch_record net (snd (raw ! i)))) [0..<length raw])"
proof -
  from run obtain s1 where f: "fetch_launch_data (listing net) (SpaceXDataExtractor d) = Inr s1"
    by (auto simp: process_all_data_def split: sum.splits)
  from fetch_launch_data_frame [OF f] obtain x where
    s1: "s1 = (SpaceXDataExtractor d)\<lparr>raw_data := x\<rparr>" by blast
  have none: "processed_data s1 = None" by (simp add: s1 SpaceXDataExtractor_def)
  show ?thesis
  proof (cases x)
    case None
    with run f s1 have "s' = s1" by (simp add: process_all_data_def)
    with none tbl show ?thesis by simp
  next
    case (Some raw)
    show ?thesis
    proof (cases "raw = []")
      case True
      with run f s1 Some have "s' = s1" by (simp add: process_all_data_def)
      with none tbl show ?thesis by simp
    next
      case False
      from s1 Some have "raw_data s1 = Some raw" by simp
      from process_all_data_run [OF f this False] run tbl
      have "tbl = filter (\<lambda>(i, r). BoosterVersion r \<noteq> PStr ''Falcon 1'')
            (map (\<lambda>i. (i, enriched_launch_record net (snd (raw ! i)))) [0..<length raw])"
        and "raw_data s' = Some raw"
        by (auto simp: enriched_state)
      with False f s1 Some show ?thesis by auto
    qed
  qed
qed

lemma table_member:
  "(i, row) \<in> set (filter (\<lambda>(i, r). P r) (map (\<lambda>i. (i, f i)) [0..<n]))
     \<longleftrightarrow> i < n \<and> row = f i \<and> P row"
  by auto

lemma process_all_data_raw:
  assumes run: "process_all_data net (SpaceXDataExtractor d) = Inr s'"
    and raw: "raw_data s' = Some raw" and ne: "raw \<noteq> []"
  shows "fetch_launch_data (listing net) (SpaceXDataExtractor d)
          = Inr ((SpaceXDataExtractor d)\<lparr>raw_data := Some raw\<rparr>)
     \<and> processed_data s' = Some (filter (\<lambda>(i, r). BoosterVersion r \<noteq> PStr ''Falcon 1'')
            (map (\<lambda>i. (i, enriched_launch_record net (snd (raw ! i)))) [0..<length raw]))"
proof -
  from run obtain s1 where f: "fetch_launch_data (listing net) (SpaceXDataExtractor d) = Inr s1"
    by (auto simp: process_all_data_def split: sum.splits)
  from fetch_launch_data_frame [OF f] obtain x where
    s1: "s1 = (SpaceXDataExtractor d)\<lparr>raw_data := x\<rparr>" by blast
  show ?thesis
  proof (cases x)
    case None
    with run f s1 have "s' = s1" by (simp add: process_all_data_def)
    with s1 None raw show ?thesis by simp
  next
    case (Some raw1)
    show ?thesis
    proof (cases "raw1 = []")
      case True
      with run f s1 Some have "s' = s1" by (simp add: process_all_data_def)
      with s1 Some True raw ne show ?thesis by simp
    next
      case False
      from s1 Some have "raw_data s1 = Some raw1" by simp
      from process_all_data_run [OF f this False] run raw
      have "raw1 = raw" by (auto simp: enriched_state)
      with process_all_data_run [OF f \<open>raw_data s1 = Some raw1\<close> False] run f s1 Some
      show ?thesis by (auto simp: enriched_state)
    qed
  qed
qed

lemma example_run:
  "process_all_data example_network (SpaceXDataExtractor default_limit_date) =
     Inr ((get_core_data example_network (get_payload_data example_network
            (get_launch_site_data example_network (get_booster_version_data example_network
              ((SpaceXDataExtractor default_limit_date)\<lparr>raw_data := Some example_raw\<rparr>)))))
          \<lparr>processed_data := Some (filter (\<lambda>(i, r). BoosterVersion r \<noteq> PStr ''Falcon 1'')
            (map (\<lambda>i. (i, enriched_launch_record example_network (snd (example_raw ! i))))
               [0..<length example_raw]))\<rparr>)"
proof (rule process_all_data_run)
  show "fetch_launch_data (listing example_network) (SpaceXDataExtractor default_limit_date)
     = Inr ((SpaceXDataExtractor default_limit_date)\<lparr>raw_data := Some example_raw\<rparr>)"
    using example_fetch by (simp add: example_network_def)
  show "raw_data ((SpaceXDataExtractor default_limit_date)\<lparr>raw_data := Some example_raw\<rparr>)
     = Some example_raw" by simp
  show "example_raw \<noteq> []" by (simp add: example_raw_def)
qed

text \<open>
  Claim C5. When \<^verbatim>\<open>_create_dataframe\<close> returns, the processed table is the assembled
  table, which has one row for every raw record, without the rows whose
  BoosterVersion is the string "Falcon 1": such a row is absent, every other row is
  present, and nothing else is changed.
\<close>

theorem falcon1_filter:
  assumes "create_dataframe s = Inr s'"
  shows "\<exists>raw df tbl. raw_data s = Some raw \<and> launch_data_frame s raw = Inr df
      \<and> map fst df = [0..<length raw]
      \<and> processed_data s' = Some tbl
      \<and> tbl = filter (\<lambda>(i, r). BoosterVersion r \<noteq> PStr ''Falcon 1'') df
      \<and> (\<forall>x\<in>set df. BoosterVersion (snd x) = PStr ''Falcon 1'' \<longrightarrow> x \<notin> set tbl)
      \<and> (\<forall>x\<in>set df. BoosterVersion (snd x) \<noteq> PStr ''Falcon 1'' \<longrightarrow> x \<in> set tbl)"
proof -
  from assms obtain raw df where raw: "raw_data s = Some raw"
    and df: "launch_data_frame s raw = Inr df"
    and s': "s' = s\<lparr>processed_data := Some (filter (\<lambda>(i, r). BoosterVersion r \<noteq> PStr ''Falcon 1'') df)\<rparr>"
    by (auto simp: create_dataframe_def split: option.splits sum.splits)
  from df have "map fst df = [0..<length raw]"
    by (auto simp: launch_data_frame_def Let_def comp_def split: if_splits)
  with raw df s' show ?thesis by auto
qed

text \<open>
  In the example the row of the Falcon 1 launch, labelled 0, is removed, and the rows
  labelled 1 and 2 stay.
\<close>

theorem falcon1_filter_witness:
  "\<exists>s' tbl. create_dataframe (get_core_data example_network (get_payload_data example_network
      (get_launch_site_data example_network (get_booster_version_data example_network
        ((SpaceXDataExtractor default_limit_date)\<lparr>raw_data := Some example_raw\<rparr>))))) = Inr s'
     \<and> processed_data s' = Some tbl \<and> map fst tbl = [1, 2]
     \<and> map (BoosterVersion \<circ> snd) tbl = [PStr ''Falcon 9'', PNone]"
proof -
  let ?s = "get_core_data example_network (get_payload_data example_network
      (get_launch_site_data example_network (get_booster_version_data example_network
        ((SpaceXDataExtractor default_limit_date)\<lparr>raw_data := Some example_raw\<rparr>))))"
  let ?df = "map (\<lambda>i. (i, enriched_launch_record example_network (snd (example_raw ! i))))
               [0..<length example_raw]"
  let ?tbl = "filter (\<lambda>(i, r). BoosterVersion r \<noteq> PStr ''Falcon 1'') ?df"
  have run: "create_dataframe ?s = Inr (?s\<lparr>processed_data := Some ?tbl\<rparr>)"
    by (rule create_dataframe_enriched [OF refl])
  have raw: "raw_data ?s = Some example_raw" unfolding enriched_state by simp
  have df: "launch_data_frame ?s example_raw = Inr ?df"
    by (rule launch_data_frame_enriched [OF refl])
  from falcon1_filter [OF run] raw df
  have tbl: "processed_data (?s\<lparr>processed_data := Some ?tbl\<rparr>) = Some ?tbl" by simp
  have upt: "[0..<length example_raw] = [0, 1, 2]"
    by (simp add: example_raw_length upt_rec)
  have cols: "map fst ?tbl = [1, 2]"
    "map (BoosterVersion \<circ> snd) ?tbl = [PStr ''Falcon 9'', PNone]"
    unfolding upt by (simp_all add: example_boosters)
  show ?thesis
  proof (intro exI conjI)
    show "create_dataframe ?s = Inr (?s\<lparr>processed_data := Some ?tbl\<rparr>)" by (rule run)
    show "processed_data (?s\<lparr>processed_data := Some ?tbl\<rparr>) = Some ?tbl" by (rule tbl)
    show "map fst ?tbl = [1, 2]" by (rule cols)
    show "map (BoosterVersion \<circ> snd) ?tbl = [PStr ''Falcon 9'', PNone]" by (rule cols)
  qed
qed

text \<open>
  Claim C9. After a run of \<^verbatim>\<open>process_all_data\<close> on a fresh extractor, a raw record
  whose rocket look-up fails has a row in the processed table, under its own label,
  and the BoosterVersion of that row is null.
\<close>

theorem null_booster_survives:
  assumes run: "process_all_data net (SpaceXDataExtractor d) = Inr s'"
    and raw: "raw_data s' = Some raw" and i: "i < length raw"
    and fails: "lookup_fails net ROCKETS_URL (rocket (snd (raw ! i)))"
  shows "\<exists>tbl row. processed_data s' = Some tbl \<and> (i, row) \<in> set tbl
      \<and> BoosterVersion row = PNone \<and> FlightNumber row = flight_number (snd (raw ! i))"
proof -
  from i have "raw \<noteq> []" by auto
  from process_all_data_raw [OF run raw this]
  have tbl: "processed_data s' = Some (filter (\<lambda>(i, r). BoosterVersion r \<noteq> PStr ''Falcon 1'')
            (map (\<lambda>i. (i, enriched_launch_record net (snd (raw ! i)))) [0..<length raw]))" by simp
  let ?row = "enriched_launch_record net (snd (raw ! i))"
  from fails have none: "BoosterVersion ?row = PNone"
    by (simp add: enriched_launch_record_def lookup_fails_field)
  have flight: "FlightNumber ?row = flight_number (snd (raw ! i))"
    by (simp add: enriched_launch_record_def)
  from i none have "(i, ?row) \<in> set (filter (\<lambda>(i, r). BoosterVersion r \<noteq> PStr ''Falcon 1'')
            (map (\<lambda>i. (i, enriched_launch_record net (snd (raw ! i)))) [0..<length raw]))"
    by (simp add: table_member)
  with tbl none flight show ?thesis by blast
qed

text \<open>
  In the example the launch with flight number 4 names a rocket that no resource
  answers.
\<close>

theorem null_booster_survives_witness:
  "\<exists>s' tbl row. process_all_data example_network (SpaceXDataExtractor default_limit_date) = Inr s'
     \<and> processed_data s' = Some tbl \<and> (2, row) \<in> set tbl
     \<and> BoosterVersion row = PNone \<and> FlightNumber row = 4"
proof -
  let ?s' = "(get_core_data example_network (get_payload_data example_network
            (get_launch_site_data example_network (get_booster_version_data example_network
              ((SpaceXDataExtractor default_limit_date)\<lparr>raw_data := Some example_raw\<rparr>)))))
          \<lparr>processed_data := Some (filter (\<lambda>(i, r). BoosterVersion r \<noteq> PStr ''Falcon 1'')
            (map (\<lambda>i. (i, enriched_launch_record example_network (snd (example_raw ! i))))
               [0..<length example_raw]))\<rparr>"
  have raw: "raw_data ?s' = Some example_raw" unfolding enriched_state by simp
  have i: "2 < length example_raw" by (simp add: example_raw_def)
  have fails: "lookup_fails example_network ROCKETS_URL (rocket (snd (example_raw ! 2)))"
    by (simp add: lookup_fails_def example_raw_def example_network_def ROCKETS_URL_def
        LAUNCHPADS_URL_def PAYLOADS_URL_def CORES_URL_def)
  have flight: "flight_number (snd (example_raw ! 2)) = 4" by (simp add: example_raw_def)
  from null_booster_survives [OF example_run raw i fails] flight example_run
  show ?thesis by auto
qed

text \<open>
  Claim C10. After a run of \<^verbatim>\<open>process_all_data\<close> on a fresh extractor, the Date of
  every row of the processed table is the \<^verbatim>\<open>date_utc\<close> string of the listing entry
  that the row was made of: a timestamp of 24 characters with its time of day, of
  which the \<^verbatim>\<open>date\<close> column of \<^verbatim>\<open>raw_data\<close> is the derived calendar date.
\<close>

theorem date_column_is_timestamp:
  assumes run: "process_all_data net (SpaceXDataExtractor d) = Inr s'"
    and tbl: "processed_data s' = Some tbl" and row: "(i, row) \<in> set tbl"
  shows "\<exists>entries e raw. listing net = Some entries \<and> e \<in> set entries
      \<and> raw_data s' = Some raw \<and> i < length raw \<and> row_of_entry e (snd (raw ! i))
      \<and> Date row = date_utc e \<and> length (Date row) = 24
      \<and> to_date (Date row) = Inr (date (snd (raw ! i)))"
proof -
  from process_all_data_table [OF run tbl] obtain raw where
    raw: "raw_data s' = Some raw"
    and f: "fetch_launch_data (listing net) (SpaceXDataExtractor d)
          = Inr ((SpaceXDataExtractor d)\<lparr>raw_data := Some raw\<rparr>)"
    and t: "tbl = filter (\<lambda>(i, r). BoosterVersion r \<noteq> PStr ''Falcon 1'')
            (map (\<lambda>i. (i, enriched_launch_record net (snd (raw ! i)))) [0..<length raw])"
    by blast
  from row have "(i, row) \<in> set (filter (\<lambda>(i, r). BoosterVersion r \<noteq> PStr ''Falcon 1'')
            (map (\<lambda>i. (i, enriched_launch_record net (snd (raw ! i)))) [0..<length raw]))"
    unfolding t .
  then have i: "i < length raw" and r: "row = enriched_launch_record net (snd (raw ! i))"
    unfolding table_member by simp_all
  from f obtain entries where l: "listing net = Some entries"
    by (cases "listing net") (auto simp: fetch_launch_data_def SpaceXDataExtractor_def)
  from fetch_launch_data_Inr [OF f [unfolded l]] obtain df where
    "(SpaceXDataExtractor d)\<lparr>raw_data := Some raw\<rparr> = (SpaceXDataExtractor d)\<lparr>raw_data := Some df\<rparr>"
    and rel: "list_all2 row_of_entry (filter (kept (limit_date (SpaceXDataExtractor d))) entries) (map snd df)"
    by blast
  then have "df = raw" by (simp add: SpaceXDataExtractor_def)
  from i have "snd (raw ! i) \<in> set (map snd raw)" by simp
  with list_all2_right [OF rel] \<open>df = raw\<close> obtain e where
    e: "e \<in> set entries" "row_of_entry e (snd (raw ! i))" by auto
  from e(2) have d: "date_utc (snd (raw ! i)) = date_utc e"
    "to_date (date_utc e) = Inr (date (snd (raw ! i)))"
    by (simp_all add: row_of_entry_def)
  from r d have "Date row = date_utc e" by (simp add: enriched_launch_record_def)
  with d(2) to_date_length [OF d(2)] l e raw i show ?thesis by auto
qed

text \<open>
  In the example the row labelled 1 carries the timestamp of the launch on the cutoff
  date, time of day included.
\<close>

theorem date_column_is_timestamp_witness:
  "\<exists>s' tbl row. process_all_data example_network (SpaceXDataExtractor default_limit_date) = Inr s'
     \<and> processed_data s' = Some tbl \<and> (1, row) \<in> set tbl
     \<and> Date row = ''2020-11-13T23:59:59.000Z''"
proof -
  let ?tbl = "filter (\<lambda>(i, r). BoosterVersion r \<noteq> PStr ''Falcon 1'')
            (map (\<lambda>i. (i, enriched_launch_record example_network (snd (example_raw ! i))))
               [0..<length example_raw])"
  let ?s' = "(get_core_data example_network (get_payload_data example_network
            (get_launch_site_data example_network (get_booster_version_data example_network
              ((SpaceXDataExtractor default_limit_date)\<lparr>raw_data := Some example_raw\<rparr>)))))
          \<lparr>processed_data := Some ?tbl\<rparr>"
  let ?row = "enriched_launch_record example_network (snd (example_raw ! 1))"
  have tbl: "processed_data ?s' = Some ?tbl" by simp
  have raw: "raw_data ?s' = Some example_raw" unfolding enriched_state by simp
  have row: "(1, ?row) \<in> set ?tbl"
    unfolding table_member by (simp add: example_raw_length example_boosters)
  from date_column_is_timestamp [OF example_run tbl row] raw obtain e where
    "row_of_entry e (snd (example_raw ! 1))" "Date ?row = date_utc e" by auto
  then have "Date ?row = date_utc (snd (example_raw ! 1))" by (simp add: row_of_entry_def)
  then have "Date ?row = ''2020-11-13T23:59:59.000Z''" by (simp add: example_raw_def)
  with example_run tbl row show ?thesis by blast
qed

subsection \<open>The exporters\<close>

text \<open>
  \<^verbatim>\<open>export_to_csv\<close> passes on whatever the write raises; \<^verbatim>\<open>export_data_to_csv\<close>
  returns in every case.
\<close>

lemma export_to_csv_propagates:
  "processed_data s = Some df \<Longrightarrow> to_csv df filename = Some e \<Longrightarrow>
   export_to_csv to_csv s filename = Inl e"
  by (simp add: export_to_csv_def)

lemma export_data_to_csv_returns:
  "\<exists>lg. export_data_to_csv to_csv df filename = Inr lg"
  by (simp add: export_data_to_csv_def split: option.splits)

text \<open>
  Claim C2 says that neither exporter raises on a write error. For a write that
  raises \<^verbatim>\<open>OSError\<close>, as to a path in a directory that does not exist,
  \<^verbatim>\<open>export_data_to_csv\<close> logs the error and returns, but \<^verbatim>\<open>export_to_csv\<close>, which
  has no handler, raises it.
\<close>

theorem export_to_csv_raises:
  "export_to_csv (\<lambda>df filename. Some OSError) (s\<lparr>processed_data := Some tbl\<rparr>) filename
     = Inl OSError
   \<and> export_data_to_csv (\<lambda>df filename. Some OSError) df filename
     = Inr [(ERROR, ''Error exporting data to CSV: %s'', [ArgExc OSError])]"
  by (simp add: export_to_csv_def export_data_to_csv_def)

section \<open>Properties of the wiki pipeline\<close>

subsection \<open>The row filter of \<^verbatim>\<open>parse_launch_table\<close>\<close>

lemma data_rows_append:
  "data_rows hs (xs @ ys) = data_rows hs xs @ data_rows hs ys"
  by (induction xs) (simp_all add: Let_def)

lemma data_rows_short:
  "length cells < length hs \<Longrightarrow> data_rows hs (cells # trs) = data_rows hs trs"
  by (simp add: Let_def)

text \<open>
  Claim C1, as the code has it. The test that skips a row is
  \<^verbatim>\<open>len(row_text) < len(headers) or len(" ".join(row_text)) > 200\<close>, so a row with
  fewer cells than there are headers is skipped whatever the length of its text, and
  the padding that follows is never reached. The table parsed from a document is the
  same with and without such a row.
\<close>

theorem parse_launch_table_drops_short_row:
  assumes "length cells < length (header_names tr)"
  shows "parse_launch_table (Some (tr # before @ cells # after)) =
         parse_launch_table (Some (tr # before @ after))"
  using assms by (simp add: parse_launch_table_def data_rows_append data_rows_short)

text \<open>
  A table with the headers Flight and Date, a full row and a row of one cell: only
  the full row is in the result.
\<close>

theorem parse_launch_table_drops_short_row_witness:
  "parse_launch_table (Some [[(TH, ''Flight''), (TH, ''Date'')],
                             [(TD, ''1''), (TD, ''4 June 2010'')], [(TD, ''2'')]])
     = Inr \<lparr>columns = [''Flight'', ''Date''], rows = [[Some ''1'', Some ''4 June 2010'']]\<rparr>"
proof -
  have short: "length [(TD, ''2'')] < length (header_names [(TH, ''Flight''), (TH, ''Date'')])"
    by (simp add: header_names_def)
  have "parse_launch_table (Some [[(TH, ''Flight''), (TH, ''Date'')],
                                  [(TD, ''1''), (TD, ''4 June 2010'')]])
     = Inr \<lparr>columns = [''Flight'', ''Date''], rows = [[Some ''1'', Some ''4 June 2010'']]\<rparr>"
    by (simp add: header_names_def py_len_def parse_launch_table_def DataFrame_def dict_of_def)
  with parse_launch_table_drops_short_row [OF short, of "[[(TD, ''1''), (TD, ''4 June 2010'')]]" "[]"]
  show ?thesis by simp
qed

text \<open>
  Claim C1, as the specification states it, fails: a row of one cell under two
  headers, with a text of one character, is not padded and kept. The result has no
  row at all.
\<close>

theorem parse_launch_table_short_row_counterexample:
  "length [(TD, ''1'')] < length (header_names [(TH, ''Flight''), (TH, ''Date'')])
   \<and> py_len (join '' '' (map snd [(TD, ''1'')])) \<le> 200
   \<and> parse_launch_table (Some [[(TH, ''Flight''), (TH, ''Date'')], [(TD, ''1'')]])
       = Inr \<lparr>columns = [], rows = []\<rparr>"
  by (simp add: header_names_def py_len_def parse_launch_table_def DataFrame_def)

subsection \<open>The column renamer\<close>

lemma map_of_filter_keys:
  "c \<in> S \<Longrightarrow> map_of (filter (\<lambda>(key, value). key \<in> S) m) c = map_of m c"
  by (induction m) auto

lemma clean_columns:
  "columns (clean_launch_data df) =
     map (\<lambda>c. case map_of column_mapping c of None \<Rightarrow> c | Some c' \<Rightarrow> c') (columns df)"
  by (simp add: clean_launch_data_def rename_def map_of_filter_keys)

text \<open>
  Claim C8. \<^verbatim>\<open>clean_launch_data\<close> keeps the number and the order of the columns: the
  label at each position is the mapped name when the scraped header is a key of the
  fixed mapping, and the scraped header itself when it is not. The cells are
  unchanged. "Booster" is mapped to "Version Booster", and "Notes" is no key.
\<close>

theorem clean_launch_data_renames:
  assumes "i < length (columns df)"
  shows "length (columns (clean_launch_data df)) = length (columns df)
    \<and> (\<forall>c'. map_of column_mapping (columns df ! i) = Some c'
           \<longrightarrow> columns (clean_launch_data df) ! i = c')
    \<and> (columns df ! i \<notin> fst ` set column_mapping
           \<longrightarrow> columns (clean_launch_data df) ! i = columns df ! i)
    \<and> rows (clean_launch_data df) = rows df
    \<and> map_of column_mapping ''Booster'' = Some ''Version Booster''
    \<and> ''Notes'' \<notin> fst ` set column_mapping"
proof -
  have len: "length (columns (clean_launch_data df)) = length (columns df)"
    by (simp add: clean_columns)
  have nth: "columns (clean_launch_data df) ! i =
      (case map_of column_mapping (columns df ! i) of None \<Rightarrow> columns df ! i | Some c' \<Rightarrow> c')"
    using assms by (simp add: clean_columns)
  have known: "\<forall>c'. map_of column_mapping (columns df ! i) = Some c'
      \<longrightarrow> columns (clean_launch_data df) ! i = c'"
    by (simp add: nth)
  have unknown: "columns df ! i \<notin> fst ` set column_mapping
      \<longrightarrow> columns (clean_launch_data df) ! i = columns df ! i"
  proof
    assume "columns df ! i \<notin> fst ` set column_mapping"
    then have "map_of column_mapping (columns df ! i) = None"
      by (simp add: map_of_eq_None_iff)
    then show "columns (clean_launch_data df) ! i = columns df ! i"
      by (simp add: nth)
  qed
  have cells: "rows (clean_launch_data df) = rows df"
    by (simp add: clean_launch_data_def rename_def)
  have booster: "map_of column_mapping ''Booster'' = Some ''Version Booster''"
    by (simp add: column_mapping_def)
  have unmapped: "''Notes'' \<notin> fst ` set column_mapping"
    by (simp add: column_mapping_def)
  from len known unknown cells booster unmapped show ?thesis by blast
qed

text \<open>A table with the headers Flight, Booster and Notes.\<close>

theorem clean_launch_data_renames_witness:
  "columns (clean_launch_data \<lparr>columns = [''Flight'', ''Booster'', ''Notes''],
                               rows = [[Some ''1'', Some ''B1049'', None]]\<rparr>) ! 1 = ''Version Booster''
   \<and> columns (clean_launch_data \<lparr>columns = [''Flight'', ''Booster'', ''Notes''],
                                 rows = [[Some ''1'', Some ''B1049'', None]]\<rparr>) ! 2 = ''Notes''
   \<and> rows (clean_launch_data \<lparr>columns = [''Flight'', ''Booster'', ''Notes''],
                              rows = [[Some ''1'', Some ''B1049'', None]]\<rparr>)
       = [[Some ''1'', Some ''B1049'', None]]"
proof -
  let ?df = "\<lparr>columns = [''Flight'', ''Booster'', ''Notes''],
              rows = [[Some ''1'', Some ''B1049'', None]]\<rparr>"
  have i1: "1 < length (columns ?df)" and i2: "2 < length (columns ?df)" by simp_all
  have b: "map_of column_mapping (columns ?df ! 1) = Some ''Version Booster''"
    by (simp add: column_mapping_def)
  have n: "columns ?df ! 2 \<notin> fst ` set column_mapping"
    by (simp add: column_mapping_def)
  from clean_launch_data_renames [OF i1] b
  have "columns (clean_launch_data ?df) ! 1 = ''Version Booster''" by blast
  moreover from clean_launch_data_renames [OF i2] n
  have "columns (clean_launch_data ?df) ! 2 = ''Notes''" by simp
  moreover from clean_launch_data_renames [OF i1]
  have "rows (clean_launch_data ?df) = [[Some ''1'', Some ''B1049'', None]]" by simp
  ultimately show ?thesis by blast
qed

end
